theory Spec2Isabelle
  imports Complex_Main "HOL-Library.Word"
begin

section \<open>The HDA file format: data model\<close>

text \<open>
  The development follows \<^verbatim>\<open>GEO_HDAFileFormat.cpp\<close>: the file format that lets a layer
  be read from a Houdini digital asset, the composition of its file format arguments from
  layer metadata, and the decision whether a metadata edit can change those arguments.
\<close>

subsection \<open>Metadata field names\<close>

text \<open>The tokens naming the metadata fields (the static \<^verbatim>\<open>TfToken\<close>s of the source).\<close>

definition theParamDictToken :: string where
  "theParamDictToken = ''HDAParms''"

definition theOptionDictToken :: string where
  "theOptionDictToken = ''HDAOptions''"

definition theAssetNameToken :: string where
  "theAssetNameToken = ''HDAAssetName''"

definition theTimeCacheModeToken :: string where
  "theTimeCacheModeToken = ''HDATimeCacheMode''"

definition theTimeCacheStartToken :: string where
  "theTimeCacheStartToken = ''HDATimeCacheStart''"

definition theTimeCacheEndToken :: string where
  "theTimeCacheEndToken = ''HDATimeCacheEnd''"

definition theTimeCacheIntervalToken :: string where
  "theTimeCacheIntervalToken = ''HDATimeCacheInterval''"

definition theHAPISessionToken :: string where
  "theHAPISessionToken = ''HDAKeepEngineOpen''"

subsection \<open>Values\<close>

text \<open>The time caching modes the source distinguishes.\<close>

datatype GEO_HAPITimeCaching =
    GEO_HAPI_TIME_CACHING_NONE
  | GEO_HAPI_TIME_CACHING_CONTINUOUS
  | GEO_HAPI_TIME_CACHING_RANGE

text \<open>
  A \<^verbatim>\<open>float\<close> or \<^verbatim>\<open>double\<close> value: a finite number (\<open>Finite 0\<close> is the
  positive zero), the negative zero, an infinity with its sign (\<open>True\<close> for the negative
  one), or a NaN.
\<close>

datatype floating = Finite real | NegativeZero | Infinity bool | NaN

text \<open>
  A \<^verbatim>\<open>VtValue\<close> holds a value of any type together with that type. The constructors
  below are the held types the file format looks at (\<^verbatim>\<open>IsHolding<T>\<close> is a match on the
  constructor) and the usual numeric ones; \<open>VtOther\<close> stands for a value of any other
  type, given by the name of the type and a representation of the value, so that different
  values are different terms. A \<^verbatim>\<open>VtDictionary\<close> is an ordered map from names to
  values: it is the list of its entries in iteration order. The elements of an integer array
  are unbounded integers. The comparison \<^verbatim>\<open>!=\<close> of two values belongs to the library
  and is not the inequality of this type: a NaN differs from itself and the two zeros are
  equal. It is one of the external parameters below.
\<close>

datatype VtValue =
    VtEmpty
  | VtBool bool
  | VtInt int
  | VtFloat floating
  | VtDouble floating
  | VtString string
  | VtToken string
  | VtVec2d floating floating
  | VtVec3d floating floating floating
  | VtVec4d floating floating floating floating
  | VtDoubleArray "floating list"
  | VtInt64Array "int list"
  | VtDictionary "(string \<times> VtValue) list"
  | VtTimeCaching GEO_HAPITimeCaching
  | VtOther string string

text \<open>\<^verbatim>\<open>IsHolding<T>\<close> followed by \<^verbatim>\<open>UncheckedGet<T>\<close>, for the types the source asks for.\<close>

fun Get_string :: "VtValue \<Rightarrow> string option" where
  "Get_string (VtString s) = Some s"
| "Get_string _ = None"

fun Get_float :: "VtValue \<Rightarrow> floating option" where
  "Get_float (VtFloat f) = Some f"
| "Get_float _ = None"

fun Get_bool :: "VtValue \<Rightarrow> bool option" where
  "Get_bool (VtBool b) = Some b"
| "Get_bool _ = None"

fun Get_VtDictionary :: "VtValue \<Rightarrow> (string \<times> VtValue) list option" where
  "Get_VtDictionary (VtDictionary d) = Some d"
| "Get_VtDictionary _ = None"

fun Get_GEO_HAPITimeCaching :: "VtValue \<Rightarrow> GEO_HAPITimeCaching option" where
  "Get_GEO_HAPITimeCaching (VtTimeCaching mode) = Some mode"
| "Get_GEO_HAPITimeCaching _ = None"

text \<open>The file format arguments: a \<^verbatim>\<open>std::map\<close> from strings to strings.\<close>

type_synonym FileFormatArguments = "string \<rightharpoonup> string"

text \<open>
  What the source takes from outside this file, as parameters of the model:
  the three macros of \<^verbatim>\<open>GEO_HAPIUtils.h\<close> that shape the keys and values of numeric
  parameters, the casts of a \<^verbatim>\<open>VtValue\<close> (\<open>Cast_T v\<close> is \<open>Some x\<close> when
  \<^verbatim>\<open>v.CanCast<T>()\<close> holds and \<^verbatim>\<open>v.Cast<T>()\<close> then holds \<open>x\<close>, and \<open>None\<close> when
  \<^verbatim>\<open>CanCast<T>()\<close> is false), the name of the held type, the formatting of numbers by
  \<^verbatim>\<open>UT_WorkBuffer::format\<close> and \<^verbatim>\<open>TfStringify\<close>, \<^verbatim>\<open>TfGetExtension\<close>, and the
  comparison \<^verbatim>\<open>operator!=\<close> of two \<^verbatim>\<open>VtValue\<close>s.
\<close>

record Externals =
  GEO_HDA_PARM_NUMERIC_PREFIX :: string
  GEO_HDA_PARM_STRING_PREFIX :: string
  GEO_HDA_PARM_SEPARATOR :: string
  Cast_double :: "VtValue \<Rightarrow> floating option"
  Cast_GfVec2d :: "VtValue \<Rightarrow> (floating \<times> floating) option"
  Cast_GfVec3d :: "VtValue \<Rightarrow> (floating \<times> floating \<times> floating) option"
  Cast_GfVec4d :: "VtValue \<Rightarrow> (floating \<times> floating \<times> floating \<times> floating) option"
  Cast_VtDoubleArray :: "VtValue \<Rightarrow> floating list option"
  Cast_VtInt64Array :: "VtValue \<Rightarrow> int list option"
  GetTypeName :: "VtValue \<Rightarrow> string"
  format_double :: "floating \<Rightarrow> string"
  format_int64 :: "int \<Rightarrow> string"
  TfStringify :: "floating \<Rightarrow> string"
  TfGetExtension :: "string \<Rightarrow> string"
  VtValue_not_equal :: "VtValue \<Rightarrow> VtValue \<Rightarrow> bool"

section \<open>Recognising and reading a file\<close>

definition theExtensions :: "string list" where
  "theExtensions = [''hda'', ''otl'', ''hdanc'', ''otlnc'', ''hdalc'', ''otllc'']"

definition CanRead :: "Externals \<Rightarrow> string \<Rightarrow> bool" where
  "CanRead ext filePath = (TfGetExtension ext filePath \<in> set theExtensions)"

text \<open>
  A layer, as far as \<^verbatim>\<open>Read\<close> touches it: its file format arguments and its backing
  data. The data object \<^verbatim>\<open>GEO_HDAFileData\<close> is defined elsewhere; \<open>New\<close> builds one
  from the arguments and \<open>Open\<close> cooks the asset into it, returning whether it succeeded
  together with the object as it then is. Both are parameters.
\<close>

record 'd SdfLayer =
  GetFileFormatArguments :: FileFormatArguments
  layerData :: 'd

definition SetLayerData :: "'d SdfLayer \<Rightarrow> 'd \<Rightarrow> 'd SdfLayer" where
  "SetLayerData layer data = layer\<lparr>layerData := data\<rparr>"

definition Read ::
  "(FileFormatArguments \<Rightarrow> 'd) \<Rightarrow> ('d \<Rightarrow> string \<Rightarrow> bool \<times> 'd) \<Rightarrow>
   'd SdfLayer \<Rightarrow> string \<Rightarrow> bool \<Rightarrow> bool \<times> 'd SdfLayer" where
  "Read New Open layer resolvedPath metadataOnly =
     (let data = New (GetFileFormatArguments layer);
          (opened, geoData) = Open data resolvedPath
      in if \<not> opened then (False, layer)
         else (True, SetLayerData layer geoData))"

section \<open>Can a field change affect the arguments?\<close>

definition CanFieldChangeAffectFileFormatArguments ::
  "Externals \<Rightarrow> string \<Rightarrow> VtValue \<Rightarrow> VtValue \<Rightarrow> VtValue \<Rightarrow> bool" where
  "CanFieldChangeAffectFileFormatArguments ext field oldValue newValue dependencyContextData =
     (if field = theTimeCacheStartToken \<or> field = theTimeCacheEndToken \<or>
         field = theTimeCacheIntervalToken
      then
        (case Get_GEO_HAPITimeCaching dependencyContextData of
           Some mode \<Rightarrow>
             if mode \<noteq> GEO_HAPI_TIME_CACHING_RANGE then False
             else VtValue_not_equal ext oldValue newValue
         | None \<Rightarrow> VtValue_not_equal ext oldValue newValue)
      else VtValue_not_equal ext oldValue newValue)"

section \<open>Composing the file format arguments\<close>

subsection \<open>The composition context and the state of a composition\<close>

text \<open>
  The context gives, for a field name, the value composed over the layers, if any:
  \<^verbatim>\<open>context.ComposeValue(field, &contextVal)\<close> is true with \<open>contextVal = v\<close> when the
  context maps \<open>field\<close> to \<open>Some v\<close>, and false when it maps it to \<open>None\<close>.
\<close>

type_synonym PcpDynamicFileFormatContext = "string \<rightharpoonup> VtValue"

text \<open>
  The guard \<^verbatim>\<open>context.ComposeValue(field, &contextVal) && contextVal.IsHolding<T>()\<close>
  and the value read under it.
\<close>

definition ComposeValue ::
  "PcpDynamicFileFormatContext \<Rightarrow> string \<Rightarrow> (VtValue \<Rightarrow> 'a option) \<Rightarrow> 'a option" where
  "ComposeValue context field get =
     (case context field of None \<Rightarrow> None | Some contextVal \<Rightarrow> get contextVal)"

text \<open>
  A composition writes file format arguments and may issue warnings; reading an array
  element that is not there is the one way it can go wrong.
\<close>

datatype error = OutOfBoundsRead

record ComposeState =
  cookArgs :: FileFormatArguments
  warnings :: "string list"

definition setArg :: "string \<Rightarrow> string \<Rightarrow> ComposeState \<Rightarrow> ComposeState" where
  "setArg key val st = st\<lparr>cookArgs := (cookArgs st)(key \<mapsto> val)\<rparr>"

definition TF_WARN :: "string \<Rightarrow> ComposeState \<Rightarrow> ComposeState" where
  "TF_WARN msg st = st\<lparr>warnings := warnings st @ [msg]\<rparr>"

subsection \<open>Numeric parameters\<close>

text \<open>\<^verbatim>\<open>data[i]\<close> on the \<open>length data\<close> elements that \<open>data\<close> points to.\<close>

definition readElem :: "'a list \<Rightarrow> int \<Rightarrow> error + 'a" where
  "readElem data i =
     (if 0 \<le> i \<and> nat i < length data then Inr (data ! nat i) else Inl OutOfBoundsRead)"

text \<open>The loop of \<^verbatim>\<open>addToArgs\<close>, from index \<open>i\<close> on.\<close>

function appendElements ::
  "string \<Rightarrow> ('a \<Rightarrow> string) \<Rightarrow> 'a list \<Rightarrow> int \<Rightarrow> int \<Rightarrow> string \<Rightarrow> error + string" where
  "appendElements sep fmt data count i valBuf =
     (if i < count then
        (case readElem data i of
           Inl e \<Rightarrow> Inl e
         | Inr x \<Rightarrow> appendElements sep fmt data count (i + 1) (valBuf @ sep @ fmt x))
      else Inr valBuf)"
  by pat_completeness auto
termination
  by (relation "measure (\<lambda>(sep, fmt, data, count, i, valBuf). nat (count - i))") auto

declare appendElements.simps [simp del]

definition addToArgs ::
  "Externals \<Rightarrow> ('a \<Rightarrow> string) \<Rightarrow> string \<Rightarrow> 'a list \<Rightarrow> int \<Rightarrow> ComposeState \<Rightarrow>
   error + ComposeState" where
  "addToArgs ext fmt parmName data count st =
     (let parmBuf = GEO_HDA_PARM_NUMERIC_PREFIX ext @ parmName in
      case readElem data 0 of
        Inl e \<Rightarrow> Inl e
      | Inr d0 \<Rightarrow>
          (case appendElements (GEO_HDA_PARM_SEPARATOR ext) fmt data count 1 (fmt d0) of
             Inl e \<Rightarrow> Inl e
           | Inr valBuf \<Rightarrow> Inr (setArg parmBuf valBuf st)))"

text \<open>The \<^verbatim>\<open>size_t\<close> size of an array passed for the \<^verbatim>\<open>int count\<close> of \<^verbatim>\<open>addToArgs\<close>.\<close>

definition size_as_int :: "nat \<Rightarrow> int" where
  "size_as_int n = sint (word_of_nat n :: 32 word)"

definition unexpectedTypeWarning :: "string \<Rightarrow> string" where
  "unexpectedTypeWarning typeName =
     ''Unexpected data type '' @ [CHR 0x27] @ typeName @ [CHR 0x27] @ '' for parameter.''"

definition addNumericNodeParmToFormatArgs ::
  "Externals \<Rightarrow> string \<Rightarrow> VtValue \<Rightarrow> ComposeState \<Rightarrow> error + ComposeState" where
  "addNumericNodeParmToFormatArgs ext parmName parmData st =
     (case Cast_double ext parmData of
        Some val \<Rightarrow> addToArgs ext (format_double ext) parmName [val] 1 st
      | None \<Rightarrow>
     (case Cast_GfVec2d ext parmData of
        Some (v0, v1) \<Rightarrow> addToArgs ext (format_double ext) parmName [v0, v1] 2 st
      | None \<Rightarrow>
     (case Cast_GfVec3d ext parmData of
        Some (v0, v1, v2) \<Rightarrow> addToArgs ext (format_double ext) parmName [v0, v1, v2] 3 st
      | None \<Rightarrow>
     (case Cast_GfVec4d ext parmData of
        Some (v0, v1, v2, v3) \<Rightarrow>
          addToArgs ext (format_double ext) parmName [v0, v1, v2, v3] 4 st
      | None \<Rightarrow>
     (case Cast_VtDoubleArray ext parmData of
        Some vals \<Rightarrow>
          addToArgs ext (format_double ext) parmName vals (size_as_int (length vals)) st
      | None \<Rightarrow>
     (case Cast_VtInt64Array ext parmData of
        Some vals \<Rightarrow>
          addToArgs ext (format_int64 ext) parmName vals (size_as_int (length vals)) st
      | None \<Rightarrow>
          Inr (TF_WARN (unexpectedTypeWarning (GetTypeName ext parmData)) st)))))))"

subsection \<open>The sections of the composition\<close>

text \<open>\<^verbatim>\<open>c_str()\<close> of a name, as \<^verbatim>\<open>%s\<close> prints it: up to the first NUL.\<close>

definition c_str :: "string \<Rightarrow> string" where
  "c_str s = takeWhile (\<lambda>c. c \<noteq> CHR 0x00) s"

text \<open>The loop over the parameter dictionary.\<close>

fun paramDictLoop ::
  "Externals \<Rightarrow> (string \<times> VtValue) list \<Rightarrow> ComposeState \<Rightarrow> error + ComposeState" where
  "paramDictLoop ext [] st = Inr st"
| "paramDictLoop ext ((parmName, data) # rest) st =
     (case Get_string data of
        Some strData \<Rightarrow>
          paramDictLoop ext rest
            (setArg (GEO_HDA_PARM_STRING_PREFIX ext @ c_str parmName) strData st)
      | None \<Rightarrow>
          (case addNumericNodeParmToFormatArgs ext parmName data st of
             Inl e \<Rightarrow> Inl e
           | Inr st' \<Rightarrow> paramDictLoop ext rest st'))"

definition composeParamDict ::
  "Externals \<Rightarrow> PcpDynamicFileFormatContext \<Rightarrow> ComposeState \<Rightarrow> error + ComposeState" where
  "composeParamDict ext context st =
     (case ComposeValue context theParamDictToken Get_VtDictionary of
        Some paramDict \<Rightarrow> paramDictLoop ext paramDict st
      | None \<Rightarrow> Inr st)"

text \<open>The loop over the options dictionary.\<close>

fun optionDictLoop :: "(string \<times> VtValue) list \<Rightarrow> ComposeState \<Rightarrow> ComposeState" where
  "optionDictLoop [] st = st"
| "optionDictLoop ((optName, data) # rest) st =
     (case Get_string data of
        Some out \<Rightarrow> optionDictLoop rest (setArg optName out st)
      | None \<Rightarrow> optionDictLoop rest st)"

definition composeOptionDict ::
  "PcpDynamicFileFormatContext \<Rightarrow> ComposeState \<Rightarrow> ComposeState" where
  "composeOptionDict context st =
     (case ComposeValue context theOptionDictToken Get_VtDictionary of
        Some optDict \<Rightarrow> optionDictLoop optDict st
      | None \<Rightarrow> st)"

definition composeAssetName ::
  "PcpDynamicFileFormatContext \<Rightarrow> ComposeState \<Rightarrow> ComposeState" where
  "composeAssetName context st =
     (case ComposeValue context theAssetNameToken Get_string of
        Some name \<Rightarrow> setArg ''assetname'' name st
      | None \<Rightarrow> st)"

text \<open>One of the three range settings: the field, and the key it is written under.\<close>

definition composeRangeSetting ::
  "Externals \<Rightarrow> PcpDynamicFileFormatContext \<Rightarrow> string \<Rightarrow> string \<Rightarrow> ComposeState \<Rightarrow>
   ComposeState" where
  "composeRangeSetting ext context field key st =
     (case ComposeValue context field Get_float of
        Some out \<Rightarrow> setArg key (TfStringify ext out) st
      | None \<Rightarrow> st)"

definition composeRangeSettings ::
  "Externals \<Rightarrow> PcpDynamicFileFormatContext \<Rightarrow> ComposeState \<Rightarrow> ComposeState" where
  "composeRangeSettings ext context st =
     composeRangeSetting ext context theTimeCacheIntervalToken ''timecacheinterval''
       (composeRangeSetting ext context theTimeCacheEndToken ''timecacheend''
         (composeRangeSetting ext context theTimeCacheStartToken ''timecachestart'' st))"

text \<open>
  The time caching metadata: the state after it, and the caching mode found. The source
  binds \<open>mode\<close> as a reference to the string held by \<^verbatim>\<open>contextVal\<close>; the model takes
  the value the string has when it is bound.
\<close>

definition composeTimeCaching ::
  "Externals \<Rightarrow> PcpDynamicFileFormatContext \<Rightarrow> ComposeState \<Rightarrow>
   ComposeState \<times> GEO_HAPITimeCaching" where
  "composeTimeCaching ext context st =
     (let cacheContext = GEO_HAPI_TIME_CACHING_NONE in
      case ComposeValue context theTimeCacheModeToken Get_string of
        Some mode \<Rightarrow>
          (let (st', cacheContext') =
                 (if mode = ''none'' then (st, GEO_HAPI_TIME_CACHING_NONE)
                  else if mode = ''continuous'' then (st, GEO_HAPI_TIME_CACHING_CONTINUOUS)
                  else if mode = ''range'' then
                    (composeRangeSettings ext context st, GEO_HAPI_TIME_CACHING_RANGE)
                  else (st, cacheContext))
           in (setArg ''timecachemethod'' mode st', cacheContext'))
      | None \<Rightarrow> (st, cacheContext))"

definition composeSessionHolding ::
  "PcpDynamicFileFormatContext \<Rightarrow> ComposeState \<Rightarrow> ComposeState" where
  "composeSessionHolding context st =
     (case ComposeValue context theHAPISessionToken Get_bool of
        Some holdSession \<Rightarrow> setArg ''keepengineopen'' (if holdSession then ''1'' else ''0'') st
      | None \<Rightarrow> st)"

text \<open>
  The whole composition. The arguments are passed in and written in place; the result is
  the state after the last section (the arguments and the warnings issued) and the
  dependency context data.
\<close>

definition ComposeFieldsForFileFormatArguments ::
  "Externals \<Rightarrow> string \<Rightarrow> PcpDynamicFileFormatContext \<Rightarrow> FileFormatArguments \<Rightarrow>
   error + ComposeState \<times> VtValue" where
  "ComposeFieldsForFileFormatArguments ext assetPath context args =
     (case composeParamDict ext context \<lparr>cookArgs = args, warnings = []\<rparr> of
        Inl e \<Rightarrow> Inl e
      | Inr st1 \<Rightarrow>
          (let st2 = composeOptionDict context st1;
               st3 = composeAssetName context st2;
               (st4, cacheContext) = composeTimeCaching ext context st3;
               st5 = composeSessionHolding context st4
           in Inr (st5, VtTimeCaching cacheContext)))"

section \<open>An instance of the external parameters\<close>

text \<open>
  To run the model on concrete inputs the parameters need values. This instance casts a
  value to the type it already holds, and the scalar numeric types to \<^verbatim>\<open>double\<close>;
  it prints integral numbers in decimal; its extension of a path is what follows the last
  dot of the last path component, and is empty when nothing precedes that dot; it compares
  two values by their held types and held values, with a NaN different from itself and the
  two zeros equal, and values of the other types by their representation. The prefixes and
  the separator are sample values.
\<close>

fun showNat :: "nat \<Rightarrow> string" where
  "showNat n =
     (if n < 10 then [''0123456789'' ! n]
      else showNat (n div 10) @ [''0123456789'' ! (n mod 10)])"

definition showInt :: "int \<Rightarrow> string" where
  "showInt i = (if i < 0 then ''-'' @ showNat (nat (- i)) else showNat (nat i))"

fun showFloating :: "floating \<Rightarrow> string" where
  "showFloating (Finite r) = (if r = of_int \<lfloor>r\<rfloor> then showInt \<lfloor>r\<rfloor> else ''(fraction)'')"
| "showFloating NegativeZero = ''-0''"
| "showFloating (Infinity negative) = (if negative then ''-inf'' else ''inf'')"
| "showFloating NaN = ''nan''"

fun demoCast_double :: "VtValue \<Rightarrow> floating option" where
  "demoCast_double (VtDouble d) = Some d"
| "demoCast_double (VtFloat f) = Some f"
| "demoCast_double (VtInt i) = Some (Finite (of_int i))"
| "demoCast_double (VtBool b) = Some (Finite (if b then 1 else 0))"
| "demoCast_double _ = None"

fun demoCast_GfVec2d :: "VtValue \<Rightarrow> (floating \<times> floating) option" where
  "demoCast_GfVec2d (VtVec2d v0 v1) = Some (v0, v1)"
| "demoCast_GfVec2d _ = None"

fun demoCast_GfVec3d :: "VtValue \<Rightarrow> (floating \<times> floating \<times> floating) option" where
  "demoCast_GfVec3d (VtVec3d v0 v1 v2) = Some (v0, v1, v2)"
| "demoCast_GfVec3d _ = None"

fun demoCast_GfVec4d :: "VtValue \<Rightarrow> (floating \<times> floating \<times> floating \<times> floating) option" where
  "demoCast_GfVec4d (VtVec4d v0 v1 v2 v3) = Some (v0, v1, v2, v3)"
| "demoCast_GfVec4d _ = None"

fun demoCast_VtDoubleArray :: "VtValue \<Rightarrow> floating list option" where
  "demoCast_VtDoubleArray (VtDoubleArray vals) = Some vals"
| "demoCast_VtDoubleArray _ = None"

fun demoCast_VtInt64Array :: "VtValue \<Rightarrow> int list option" where
  "demoCast_VtInt64Array (VtInt64Array vals) = Some vals"
| "demoCast_VtInt64Array _ = None"

fun demoGetTypeName :: "VtValue \<Rightarrow> string" where
  "demoGetTypeName VtEmpty = ''void''"
| "demoGetTypeName (VtBool _) = ''bool''"
| "demoGetTypeName (VtInt _) = ''int''"
| "demoGetTypeName (VtFloat _) = ''float''"
| "demoGetTypeName (VtDouble _) = ''double''"
| "demoGetTypeName (VtString _) = ''string''"
| "demoGetTypeName (VtToken _) = ''TfToken''"
| "demoGetTypeName (VtVec2d _ _) = ''GfVec2d''"
| "demoGetTypeName (VtVec3d _ _ _) = ''GfVec3d''"
| "demoGetTypeName (VtVec4d _ _ _ _) = ''GfVec4d''"
| "demoGetTypeName (VtDoubleArray _) = ''VtArray<double>''"
| "demoGetTypeName (VtInt64Array _) = ''VtArray<long>''"
| "demoGetTypeName (VtDictionary _) = ''VtDictionary''"
| "demoGetTypeName (VtTimeCaching _) = ''GEO_HAPITimeCaching''"
| "demoGetTypeName (VtOther typeName _) = typeName"

definition demoGetExtension :: "string \<Rightarrow> string" where
  "demoGetExtension path =
     (let fileName =
            rev (takeWhile (\<lambda>c. c \<noteq> CHR ''/'') (dropWhile (\<lambda>c. c = CHR ''/'') (rev path)));
          suffix = rev (takeWhile (\<lambda>c. c \<noteq> CHR ''.'') (rev fileName))
      in if CHR ''.'' \<notin> set fileName then []
         else if length fileName = Suc (length suffix) then []
         else suffix)"

definition canonical :: "floating \<Rightarrow> floating" where
  "canonical x = (if x = NegativeZero then Finite 0 else x)"

fun canonicalValue :: "VtValue \<Rightarrow> VtValue" where
  "canonicalValue (VtFloat x) = VtFloat (canonical x)"
| "canonicalValue (VtDouble x) = VtDouble (canonical x)"
| "canonicalValue (VtVec2d v0 v1) = VtVec2d (canonical v0) (canonical v1)"
| "canonicalValue (VtVec3d v0 v1 v2) = VtVec3d (canonical v0) (canonical v1) (canonical v2)"
| "canonicalValue (VtVec4d v0 v1 v2 v3) =
     VtVec4d (canonical v0) (canonical v1) (canonical v2) (canonical v3)"
| "canonicalValue (VtDoubleArray vals) = VtDoubleArray (map canonical vals)"
| "canonicalValue (VtDictionary d) =
     VtDictionary (map (\<lambda>(name, v). (name, canonicalValue v)) d)"
| "canonicalValue v = v"

fun hasNaN :: "VtValue \<Rightarrow> bool" where
  "hasNaN (VtFloat x) = (x = NaN)"
| "hasNaN (VtDouble x) = (x = NaN)"
| "hasNaN (VtVec2d v0 v1) = (NaN \<in> {v0, v1})"
| "hasNaN (VtVec3d v0 v1 v2) = (NaN \<in> {v0, v1, v2})"
| "hasNaN (VtVec4d v0 v1 v2 v3) = (NaN \<in> {v0, v1, v2, v3})"
| "hasNaN (VtDoubleArray vals) = (NaN \<in> set vals)"
| "hasNaN (VtDictionary d) = (\<exists>(name, v) \<in> set d. hasNaN v)"
| "hasNaN v = False"

definition demoNotEqual :: "VtValue \<Rightarrow> VtValue \<Rightarrow> bool" where
  "demoNotEqual a b = (canonicalValue a \<noteq> canonicalValue b \<or> hasNaN a)"

definition demoExternals :: Externals where
  "demoExternals =
     \<lparr>GEO_HDA_PARM_NUMERIC_PREFIX = ''numeric_'',
      GEO_HDA_PARM_STRING_PREFIX = ''string_'',
      GEO_HDA_PARM_SEPARATOR = '' '',
      Cast_double = demoCast_double,
      Cast_GfVec2d = demoCast_GfVec2d,
      Cast_GfVec3d = demoCast_GfVec3d,
      Cast_GfVec4d = demoCast_GfVec4d,
      Cast_VtDoubleArray = demoCast_VtDoubleArray,
      Cast_VtInt64Array = demoCast_VtInt64Array,
      GetTypeName = demoGetTypeName,
      format_double = showFloating,
      format_int64 = showInt,
      TfStringify = showFloating,
      TfGetExtension = demoGetExtension,
      VtValue_not_equal = demoNotEqual\<rparr>"

text \<open>A data object for \<^verbatim>\<open>Read\<close>: the arguments it was built from and the path it holds.\<close>

definition demoNew :: "FileFormatArguments \<Rightarrow> FileFormatArguments \<times> string" where
  "demoNew args = (args, [])"

definition demoOpen ::
  "FileFormatArguments \<times> string \<Rightarrow> string \<Rightarrow> bool \<times> (FileFormatArguments \<times> string)" where
  "demoOpen data filePath =
     (if filePath = ''missing.hda'' then (False, data) else (True, (fst data, filePath)))"

text \<open>
  Two contexts: one with a parameter dictionary holding \<open>speed = 4.0\<close>, an empty options
  dictionary and no other field; and the same with a time cache mode, a start of 1, an
  end of 24 and an interval that is a string instead of a \<^verbatim>\<open>float\<close>.
\<close>

definition demoContextNoMode :: PcpDynamicFileFormatContext where
  "demoContextNoMode =
     [theParamDictToken \<mapsto> VtDictionary [(''speed'', VtDouble (Finite 4))],
      theOptionDictToken \<mapsto> VtDictionary []]"

definition demoContext :: "string \<Rightarrow> PcpDynamicFileFormatContext" where
  "demoContext mode =
     demoContextNoMode
       (theTimeCacheModeToken \<mapsto> VtString mode,
        theTimeCacheStartToken \<mapsto> VtFloat (Finite 1),
        theTimeCacheEndToken \<mapsto> VtFloat (Finite 24),
        theTimeCacheIntervalToken \<mapsto> VtString ''half'')"

text \<open>A context whose options dictionary has a string entry and an integer entry.\<close>

definition demoOptions :: "(string \<times> VtValue) list" where
  "demoOptions = [(''level'', VtInt 3), (''verbose'', VtString ''yes'')]"

definition demoContextOptions :: PcpDynamicFileFormatContext where
  "demoContextOptions = [theOptionDictToken \<mapsto> VtDictionary demoOptions]"

definition emptyState :: ComposeState where
  "emptyState = \<lparr>cookArgs = Map.empty, warnings = []\<rparr>"

section \<open>Notions used to state and prove the properties\<close>

text \<open>The elements of a numeric value joined by the separator, in their order.\<close>

fun joinWith :: "string \<Rightarrow> string list \<Rightarrow> string" where
  "joinWith sep [] = []"
| "joinWith sep (x # xs) = x @ concat (map (\<lambda>y. sep @ y) xs)"

text \<open>
  The specification's reading of numeric coercion: the formatted elements of the first
  coercion that succeeds, trying scalar double, 2-vector, 3-vector, 4-vector, double array
  and integer array in this order; \<open>None\<close> when none succeeds.
\<close>

definition firstNumericCoercion :: "Externals \<Rightarrow> VtValue \<Rightarrow> string list option" where
  "firstNumericCoercion ext parmData =
     (case Cast_double ext parmData of
        Some val \<Rightarrow> Some [format_double ext val]
      | None \<Rightarrow>
     (case Cast_GfVec2d ext parmData of
        Some (v0, v1) \<Rightarrow> Some (map (format_double ext) [v0, v1])
      | None \<Rightarrow>
     (case Cast_GfVec3d ext parmData of
        Some (v0, v1, v2) \<Rightarrow> Some (map (format_double ext) [v0, v1, v2])
      | None \<Rightarrow>
     (case Cast_GfVec4d ext parmData of
        Some (v0, v1, v2, v3) \<Rightarrow> Some (map (format_double ext) [v0, v1, v2, v3])
      | None \<Rightarrow>
     (case Cast_VtDoubleArray ext parmData of
        Some vals \<Rightarrow> Some (map (format_double ext) vals)
      | None \<Rightarrow>
     (case Cast_VtInt64Array ext parmData of
        Some vals \<Rightarrow> Some (map (format_int64 ext) vals)
      | None \<Rightarrow> None))))))"

text \<open>
  A step of the composition that only writes: it adds the arguments \<open>W\<close> over the ones
  present and appends the warnings \<open>ws\<close>. A step is framed when it either fails on every
  state with the same error or only writes, the same on every state.
\<close>

definition applyWrites ::
  "FileFormatArguments \<Rightarrow> string list \<Rightarrow> ComposeState \<Rightarrow> ComposeState" where
  "applyWrites W ws st = st\<lparr>cookArgs := cookArgs st ++ W, warnings := warnings st @ ws\<rparr>"

definition framed :: "(ComposeState \<Rightarrow> error + ComposeState) \<Rightarrow> bool" where
  "framed f \<longleftrightarrow>
     (\<exists>e. \<forall>st. f st = Inl e) \<or> (\<exists>W ws. \<forall>st. f st = Inr (applyWrites W ws st))"

section \<open>Recognising a file\<close>

text \<open>
  C8. \<^verbatim>\<open>CanRead\<close> is true exactly when the extension of the path is one of the six
  extensions \<open>hda\<close>, \<open>otl\<close>, \<open>hdanc\<close>, \<open>otlnc\<close>, \<open>hdalc\<close>, \<open>otllc\<close>, compared as
  strings (so an upper-case \<open>HDA\<close> is not among them). In particular it is true for
  \<open>asset.hda\<close> and \<open>asset.otlnc\<close> and false for \<open>asset.usd\<close>, whose extensions are
  \<open>hda\<close>, \<open>otlnc\<close> and \<open>usd\<close>.
\<close>

theorem CanRead_iff_extension:
  "(CanRead ext filePath \<longleftrightarrow>
      TfGetExtension ext filePath \<in> {''hda'', ''otl'', ''hdanc'', ''otlnc'', ''hdalc'', ''otllc''}) \<and>
   (TfGetExtension ext ''asset.hda'' = ''hda'' \<longrightarrow> CanRead ext ''asset.hda'') \<and>
   (TfGetExtension ext ''asset.otlnc'' = ''otlnc'' \<longrightarrow> CanRead ext ''asset.otlnc'') \<and>
   (TfGetExtension ext ''asset.usd'' = ''usd'' \<longrightarrow> \<not> CanRead ext ''asset.usd'') \<and>
   (TfGetExtension ext upperPath = ''HDA'' \<longrightarrow> \<not> CanRead ext upperPath)"
  by (simp add: CanRead_def theExtensions_def)

theorem CanRead_iff_extension_witness:
  "TfGetExtension demoExternals ''asset.hda'' = ''hda'' \<and>
   TfGetExtension demoExternals ''asset.otlnc'' = ''otlnc'' \<and>
   TfGetExtension demoExternals ''asset.usd'' = ''usd'' \<and>
   TfGetExtension demoExternals ''ASSET.HDA'' = ''HDA'' \<and>
   CanRead demoExternals ''asset.hda'' \<and>
   CanRead demoExternals ''asset.otlnc'' \<and>
   \<not> CanRead demoExternals ''asset.usd'' \<and>
   \<not> CanRead demoExternals ''ASSET.HDA''"
proof -
  have e: "TfGetExtension demoExternals ''asset.hda'' = ''hda''"
    "TfGetExtension demoExternals ''asset.otlnc'' = ''otlnc''"
    "TfGetExtension demoExternals ''asset.usd'' = ''usd''"
    "TfGetExtension demoExternals ''ASSET.HDA'' = ''HDA''"
    by (simp_all add: demoExternals_def demoGetExtension_def)
  from e show ?thesis
    using CanRead_iff_extension [of demoExternals "''asset.hda''" "''ASSET.HDA''"]
    by simp
qed

section \<open>Reading a layer\<close>

text \<open>
  C7. When opening the data object fails, \<^verbatim>\<open>Read\<close> returns false and the layer is as it
  was, its backing data included. When opening succeeds, \<^verbatim>\<open>Read\<close> returns true and the
  layer's backing data is the opened object. So the layer's data changes only when
  \<^verbatim>\<open>Read\<close> returns true.
\<close>

theorem Read_installs_data_only_on_success:
  fixes New :: "FileFormatArguments \<Rightarrow> 'd"
  assumes "Open (New (GetFileFormatArguments layer)) resolvedPath = (opened, geoData)"
  shows "(\<not> opened \<longrightarrow> Read New Open layer resolvedPath metadataOnly = (False, layer)) \<and>
         (opened \<longrightarrow> Read New Open layer resolvedPath metadataOnly =
                       (True, layer\<lparr>layerData := geoData\<rparr>)) \<and>
         (layerData (snd (Read New Open layer resolvedPath metadataOnly)) \<noteq> layerData layer
            \<longrightarrow> opened \<and> fst (Read New Open layer resolvedPath metadataOnly))"
  using assms by (simp add: Read_def SetLayerData_def)

theorem Read_installs_data_only_on_success_witness:
  "demoOpen (demoNew Map.empty) ''missing.hda'' = (False, (Map.empty, [])) \<and>
   Read demoNew demoOpen
      \<lparr>GetFileFormatArguments = Map.empty, layerData = (Map.empty, ''old'')\<rparr>
      ''missing.hda'' False
     = (False, \<lparr>GetFileFormatArguments = Map.empty, layerData = (Map.empty, ''old'')\<rparr>) \<and>
   demoOpen (demoNew Map.empty) ''asset.hda'' = (True, (Map.empty, ''asset.hda'')) \<and>
   Read demoNew demoOpen
      \<lparr>GetFileFormatArguments = Map.empty, layerData = (Map.empty, ''old'')\<rparr>
      ''asset.hda'' False
     = (True, \<lparr>GetFileFormatArguments = Map.empty, layerData = (Map.empty, ''asset.hda'')\<rparr>)"
proof -
  let ?layer = "\<lparr>GetFileFormatArguments = (Map.empty :: FileFormatArguments),
                 layerData = (Map.empty :: FileFormatArguments, ''old'')\<rparr>"
  have o1: "demoOpen (demoNew (GetFileFormatArguments ?layer)) ''missing.hda''
              = (False, (Map.empty, []))"
    by (simp add: demoOpen_def demoNew_def)
  have o2: "demoOpen (demoNew (GetFileFormatArguments ?layer)) ''asset.hda''
              = (True, (Map.empty, ''asset.hda''))"
    by (simp add: demoOpen_def demoNew_def)
  from Read_installs_data_only_on_success
         [where New = demoNew and Open = demoOpen and layer = ?layer
            and resolvedPath = "''missing.hda''" and metadataOnly = False, OF o1]
       Read_installs_data_only_on_success
         [where New = demoNew and Open = demoOpen and layer = ?layer
            and resolvedPath = "''asset.hda''" and metadataOnly = False, OF o2]
       o1 o2
  show ?thesis by simp
qed

section \<open>Which field changes matter\<close>

text \<open>
  C1. For each of the three range fields (time cache start, end and interval), when the
  dependency context data holds a time caching mode other than range,
  \<^verbatim>\<open>CanFieldChangeAffectFileFormatArguments\<close> is false whatever the old and the new
  value are, equal or not, and whatever the comparison of values is.
\<close>

theorem range_field_change_inert_outside_range:
  assumes "field \<in> {theTimeCacheStartToken, theTimeCacheEndToken, theTimeCacheIntervalToken}"
    and "dependencyContextData = VtTimeCaching mode"
    and "mode \<noteq> GEO_HAPI_TIME_CACHING_RANGE"
  shows "\<not> CanFieldChangeAffectFileFormatArguments ext field oldValue newValue
             dependencyContextData"
  using assms by (auto simp: CanFieldChangeAffectFileFormatArguments_def)

theorem range_field_change_inert_outside_range_witness:
  "theTimeCacheEndToken \<in> {theTimeCacheStartToken, theTimeCacheEndToken, theTimeCacheIntervalToken} \<and>
   GEO_HAPI_TIME_CACHING_CONTINUOUS \<noteq> GEO_HAPI_TIME_CACHING_RANGE \<and>
   VtValue_not_equal demoExternals (VtFloat (Finite 1)) (VtFloat (Finite 24)) \<and>
   \<not> CanFieldChangeAffectFileFormatArguments demoExternals theTimeCacheEndToken
       (VtFloat (Finite 1)) (VtFloat (Finite 24))
       (VtTimeCaching GEO_HAPI_TIME_CACHING_CONTINUOUS)"
proof -
  have d: "VtValue_not_equal demoExternals (VtFloat (Finite 1)) (VtFloat (Finite 24))"
    by (simp add: demoExternals_def demoNotEqual_def canonical_def)
  show ?thesis
    using d range_field_change_inert_outside_range
      [of theTimeCacheEndToken "VtTimeCaching GEO_HAPI_TIME_CACHING_CONTINUOUS"
          GEO_HAPI_TIME_CACHING_CONTINUOUS demoExternals "VtFloat (Finite 1)"
          "VtFloat (Finite 24)"]
    by simp
qed

text \<open>
  C2. For a field that is not one of the three range fields, and for any field when the
  dependency context data holds the range mode, \<^verbatim>\<open>CanFieldChangeAffectFileFormatArguments\<close>
  is true exactly when the old value differs from the new one under the comparison
  \<^verbatim>\<open>!=\<close> of \<^verbatim>\<open>VtValue\<close>, which compares the held types and the held values. This holds
  for all old and new values, of whatever held type, a NaN included.
\<close>

theorem other_field_change_matters_iff_values_differ:
  assumes "field \<notin> {theTimeCacheStartToken, theTimeCacheEndToken, theTimeCacheIntervalToken} \<or>
           dependencyContextData = VtTimeCaching GEO_HAPI_TIME_CACHING_RANGE"
  shows "CanFieldChangeAffectFileFormatArguments ext field oldValue newValue
           dependencyContextData
           \<longleftrightarrow> VtValue_not_equal ext oldValue newValue"
  using assms by (auto simp: CanFieldChangeAffectFileFormatArguments_def)

theorem other_field_change_matters_iff_values_differ_witness:
  "theParamDictToken \<notin> {theTimeCacheStartToken, theTimeCacheEndToken, theTimeCacheIntervalToken} \<and>
   CanFieldChangeAffectFileFormatArguments demoExternals theParamDictToken
       (VtDictionary [(''t'', VtOther ''GfVec3f'' ''(1, 2, 3)'')])
       (VtDictionary [(''t'', VtOther ''GfVec3f'' ''(4, 5, 6)'')])
       (VtTimeCaching GEO_HAPI_TIME_CACHING_NONE) \<and>
   \<not> CanFieldChangeAffectFileFormatArguments demoExternals theParamDictToken
       (VtDictionary [(''t'', VtOther ''GfVec3f'' ''(1, 2, 3)'')])
       (VtDictionary [(''t'', VtOther ''GfVec3f'' ''(1, 2, 3)'')])
       (VtTimeCaching GEO_HAPI_TIME_CACHING_NONE) \<and>
   CanFieldChangeAffectFileFormatArguments demoExternals theTimeCacheStartToken
       (VtFloat (Finite 1)) (VtFloat (Finite 2))
       (VtTimeCaching GEO_HAPI_TIME_CACHING_RANGE) \<and>
   \<not> CanFieldChangeAffectFileFormatArguments demoExternals theTimeCacheStartToken
       (VtFloat NegativeZero) (VtFloat (Finite 0))
       (VtTimeCaching GEO_HAPI_TIME_CACHING_RANGE) \<and>
   CanFieldChangeAffectFileFormatArguments demoExternals theTimeCacheStartToken
       (VtFloat NaN) (VtFloat NaN)
       (VtTimeCaching GEO_HAPI_TIME_CACHING_RANGE)"
proof -
  have n: "theParamDictToken \<notin>
             {theTimeCacheStartToken, theTimeCacheEndToken, theTimeCacheIntervalToken}"
    by (simp add: theParamDictToken_def theTimeCacheStartToken_def theTimeCacheEndToken_def
        theTimeCacheIntervalToken_def)
  have r: "field \<notin> {theTimeCacheStartToken, theTimeCacheEndToken, theTimeCacheIntervalToken} \<or>
           VtTimeCaching GEO_HAPI_TIME_CACHING_RANGE = VtTimeCaching GEO_HAPI_TIME_CACHING_RANGE"
    for field
    by simp
  have c: "VtValue_not_equal demoExternals
             (VtDictionary [(''t'', VtOther ''GfVec3f'' ''(1, 2, 3)'')])
             (VtDictionary [(''t'', VtOther ''GfVec3f'' ''(4, 5, 6)'')])"
    "\<not> VtValue_not_equal demoExternals
             (VtDictionary [(''t'', VtOther ''GfVec3f'' ''(1, 2, 3)'')])
             (VtDictionary [(''t'', VtOther ''GfVec3f'' ''(1, 2, 3)'')])"
    "VtValue_not_equal demoExternals (VtFloat (Finite 1)) (VtFloat (Finite 2))"
    "\<not> VtValue_not_equal demoExternals (VtFloat NegativeZero) (VtFloat (Finite 0))"
    "VtValue_not_equal demoExternals (VtFloat NaN) (VtFloat NaN)"
    by (simp_all add: demoExternals_def demoNotEqual_def canonical_def)
  note t = other_field_change_matters_iff_values_differ [where ext = demoExternals]
  from n c
    t [where field = theParamDictToken
         and dependencyContextData = "VtTimeCaching GEO_HAPI_TIME_CACHING_NONE",
       OF disjI1 [OF n]]
    t [where field = theTimeCacheStartToken, OF r]
  show ?thesis
    by blast
qed

section \<open>Composition: what each section writes\<close>

lemma cookArgs_setArg [simp]: "cookArgs (setArg key val st) = (cookArgs st)(key \<mapsto> val)"
  by (simp add: setArg_def)

lemma warnings_setArg [simp]: "warnings (setArg key val st) = warnings st"
  by (simp add: setArg_def)

lemma ComposeValue_other_field [simp]:
  "field' \<noteq> field \<Longrightarrow> ComposeValue (ctx(field' := v)) field get = ComposeValue ctx field get"
  by (simp add: ComposeValue_def)

lemmas token_defs =
  theParamDictToken_def theOptionDictToken_def theAssetNameToken_def
  theTimeCacheModeToken_def theTimeCacheStartToken_def theTimeCacheEndToken_def
  theTimeCacheIntervalToken_def theHAPISessionToken_def

lemma range_field_not_other_token:
  assumes "field \<in> {theTimeCacheStartToken, theTimeCacheEndToken, theTimeCacheIntervalToken}"
  shows "field \<noteq> theParamDictToken" "field \<noteq> theOptionDictToken"
    "field \<noteq> theAssetNameToken" "field \<noteq> theTimeCacheModeToken"
    "field \<noteq> theHAPISessionToken"
proof -
  from assms consider "field = theTimeCacheStartToken" | "field = theTimeCacheEndToken"
    | "field = theTimeCacheIntervalToken" by blast
  then have "field \<noteq> theParamDictToken \<and> field \<noteq> theOptionDictToken \<and>
    field \<noteq> theAssetNameToken \<and> field \<noteq> theTimeCacheModeToken \<and>
    field \<noteq> theHAPISessionToken"
    by cases (simp_all add: token_defs)
  then show "field \<noteq> theParamDictToken" "field \<noteq> theOptionDictToken"
    "field \<noteq> theAssetNameToken" "field \<noteq> theTimeCacheModeToken"
    "field \<noteq> theHAPISessionToken"
    by simp_all
qed

lemma composeRangeSetting_cookArgs:
  "cookArgs (composeRangeSetting ext ctx field key st) k =
     (case ComposeValue ctx field Get_float of
        Some out \<Rightarrow> if k = key then Some (TfStringify ext out) else cookArgs st k
      | None \<Rightarrow> cookArgs st k)"
  by (simp add: composeRangeSetting_def split: option.split)

lemma composeRangeSetting_warnings [simp]:
  "warnings (composeRangeSetting ext ctx field key st) = warnings st"
  by (simp add: composeRangeSetting_def split: option.split)

lemma composeRangeSettings_start:
  "cookArgs (composeRangeSettings ext ctx st) ''timecachestart'' =
     (case ComposeValue ctx theTimeCacheStartToken Get_float of
        Some out \<Rightarrow> Some (TfStringify ext out)
      | None \<Rightarrow> cookArgs st ''timecachestart'')"
  by (simp add: composeRangeSettings_def composeRangeSetting_cookArgs split: option.split)

lemma composeRangeSettings_end:
  "cookArgs (composeRangeSettings ext ctx st) ''timecacheend'' =
     (case ComposeValue ctx theTimeCacheEndToken Get_float of
        Some out \<Rightarrow> Some (TfStringify ext out)
      | None \<Rightarrow> cookArgs st ''timecacheend'')"
  by (simp add: composeRangeSettings_def composeRangeSetting_cookArgs split: option.split)

lemma composeRangeSettings_interval:
  "cookArgs (composeRangeSettings ext ctx st) ''timecacheinterval'' =
     (case ComposeValue ctx theTimeCacheIntervalToken Get_float of
        Some out \<Rightarrow> Some (TfStringify ext out)
      | None \<Rightarrow> cookArgs st ''timecacheinterval'')"
  by (simp add: composeRangeSettings_def composeRangeSetting_cookArgs split: option.split)

lemma range_setting_cases:
  assumes "(field, key) \<in> {(theTimeCacheStartToken, ''timecachestart''),
             (theTimeCacheEndToken, ''timecacheend''),
             (theTimeCacheIntervalToken, ''timecacheinterval'')}"
  obtains "field = theTimeCacheStartToken" and "key = ''timecachestart''"
    | "field = theTimeCacheEndToken" and "key = ''timecacheend''"
    | "field = theTimeCacheIntervalToken" and "key = ''timecacheinterval''"
  using assms by blast

lemma composeRangeSettings_key:
  assumes "(field, key) \<in> {(theTimeCacheStartToken, ''timecachestart''),
             (theTimeCacheEndToken, ''timecacheend''),
             (theTimeCacheIntervalToken, ''timecacheinterval'')}"
  shows "cookArgs (composeRangeSettings ext ctx st) key =
     (case ComposeValue ctx field Get_float of
        Some out \<Rightarrow> Some (TfStringify ext out)
      | None \<Rightarrow> cookArgs st key)"
  using assms
  by (rule range_setting_cases)
     (simp_all only: composeRangeSettings_start composeRangeSettings_end
        composeRangeSettings_interval)

lemma composeTimeCaching_no_mode:
  "ComposeValue ctx theTimeCacheModeToken Get_string = None \<Longrightarrow>
     composeTimeCaching ext ctx st = (st, GEO_HAPI_TIME_CACHING_NONE)"
  by (simp add: composeTimeCaching_def)

lemma composeTimeCaching_mode:
  "ComposeValue ctx theTimeCacheModeToken Get_string = Some mode \<Longrightarrow>
     composeTimeCaching ext ctx st =
       (setArg ''timecachemethod'' mode
          (if mode = ''range'' then composeRangeSettings ext ctx st else st),
        if mode = ''none'' then GEO_HAPI_TIME_CACHING_NONE
        else if mode = ''continuous'' then GEO_HAPI_TIME_CACHING_CONTINUOUS
        else if mode = ''range'' then GEO_HAPI_TIME_CACHING_RANGE
        else GEO_HAPI_TIME_CACHING_NONE)"
  by (simp add: composeTimeCaching_def)

lemma composeTimeCaching_range_key:
  assumes "(field, key) \<in> {(theTimeCacheStartToken, ''timecachestart''),
             (theTimeCacheEndToken, ''timecacheend''),
             (theTimeCacheIntervalToken, ''timecacheinterval'')}"
  shows "cookArgs (fst (composeTimeCaching ext ctx st)) key =
     (if ComposeValue ctx theTimeCacheModeToken Get_string = Some ''range'' then
        (case ComposeValue ctx field Get_float of
           Some out \<Rightarrow> Some (TfStringify ext out)
         | None \<Rightarrow> cookArgs st key)
      else cookArgs st key)"
proof (cases "ComposeValue ctx theTimeCacheModeToken Get_string")
  case None
  then show ?thesis by (simp add: composeTimeCaching_no_mode)
next
  case (Some mode)
  have k: "key \<noteq> ''timecachemethod''"
    using assms by (rule range_setting_cases) simp_all
  show ?thesis
    using k Some composeRangeSettings_key [OF assms, of ext ctx st]
    by (simp add: composeTimeCaching_mode)
qed

lemma composeTimeCaching_ignores_field:
  assumes "field \<noteq> theTimeCacheModeToken"
    and "ComposeValue ctx theTimeCacheModeToken Get_string \<noteq> Some ''range''"
  shows "composeTimeCaching ext (ctx(field := v)) st = composeTimeCaching ext ctx st"
proof (cases "ComposeValue ctx theTimeCacheModeToken Get_string")
  case None
  then show ?thesis using assms by (simp add: composeTimeCaching_no_mode)
next
  case (Some mode)
  then show ?thesis using assms by (simp add: composeTimeCaching_mode)
qed

lemma composeSessionHolding_cookArgs:
  "k \<noteq> ''keepengineopen'' \<Longrightarrow> cookArgs (composeSessionHolding ctx st) k = cookArgs st k"
  by (simp add: composeSessionHolding_def split: option.split)

lemma Compose_Inr_iff:
  "ComposeFieldsForFileFormatArguments ext assetPath ctx args = Inr (final, tok) \<longleftrightarrow>
     (\<exists>st1. composeParamDict ext ctx \<lparr>cookArgs = args, warnings = []\<rparr> = Inr st1 \<and>
        final = composeSessionHolding ctx
                (fst (composeTimeCaching ext ctx
                   (composeAssetName ctx (composeOptionDict ctx st1)))) \<and>
        tok = VtTimeCaching
                (snd (composeTimeCaching ext ctx
                   (composeAssetName ctx (composeOptionDict ctx st1)))))"
  by (cases "composeParamDict ext ctx \<lparr>cookArgs = args, warnings = []\<rparr>")
     (auto simp: ComposeFieldsForFileFormatArguments_def Let_def split_beta)

lemma composeTimeCaching_mode_independent_of_state:
  "snd (composeTimeCaching ext ctx st) = snd (composeTimeCaching ext ctx st')"
  by (cases "ComposeValue ctx theTimeCacheModeToken Get_string")
     (simp_all add: composeTimeCaching_no_mode composeTimeCaching_mode)

lemma Compose_ignores_range_field:
  assumes "field \<in> {theTimeCacheStartToken, theTimeCacheEndToken, theTimeCacheIntervalToken}"
    and "ComposeValue ctx theTimeCacheModeToken Get_string \<noteq> Some ''range''"
  shows "ComposeFieldsForFileFormatArguments ext assetPath (ctx(field := v)) args =
         ComposeFieldsForFileFormatArguments ext assetPath ctx args"
proof -
  note d = range_field_not_other_token [OF assms(1)]
  have t: "composeTimeCaching ext (ctx(field := v)) = composeTimeCaching ext ctx"
    using composeTimeCaching_ignores_field [OF d(4) assms(2)] by (intro ext)
  have p: "composeParamDict ext (ctx(field := v)) = composeParamDict ext ctx"
    using d by (intro ext) (simp add: composeParamDict_def)
  have ot: "composeOptionDict (ctx(field := v)) = composeOptionDict ctx"
    using d by (intro ext) (simp add: composeOptionDict_def)
  have a: "composeAssetName (ctx(field := v)) = composeAssetName ctx"
    using d by (intro ext) (simp add: composeAssetName_def)
  have s: "composeSessionHolding (ctx(field := v)) = composeSessionHolding ctx"
    using d by (intro ext) (simp add: composeSessionHolding_def)
  show ?thesis
    unfolding ComposeFieldsForFileFormatArguments_def p ot a s t ..
qed

lemma Compose_mistyped_range_field_as_absent:
  assumes "field \<in> {theTimeCacheStartToken, theTimeCacheEndToken, theTimeCacheIntervalToken}"
    and "ComposeValue ctx field Get_float = None"
  shows "ComposeFieldsForFileFormatArguments ext assetPath (ctx(field := None)) args =
         ComposeFieldsForFileFormatArguments ext assetPath ctx args"
proof -
  note d = range_field_not_other_token [OF assms(1)]
  have cv: "ComposeValue (ctx(field := None)) f Get_float = ComposeValue ctx f Get_float"
    for f using assms(2) by (cases "f = field") (simp_all add: ComposeValue_def)
  have r: "composeRangeSettings ext (ctx(field := None)) = composeRangeSettings ext ctx"
    by (intro ext) (simp add: composeRangeSettings_def composeRangeSetting_def cv)
  have t: "composeTimeCaching ext (ctx(field := None)) = composeTimeCaching ext ctx"
    using d(4) unfolding composeTimeCaching_def r by (intro ext) simp
  have p: "composeParamDict ext (ctx(field := None)) = composeParamDict ext ctx"
    using d by (intro ext) (simp add: composeParamDict_def)
  have ot: "composeOptionDict (ctx(field := None)) = composeOptionDict ctx"
    using d by (intro ext) (simp add: composeOptionDict_def)
  have a: "composeAssetName (ctx(field := None)) = composeAssetName ctx"
    using d by (intro ext) (simp add: composeAssetName_def)
  have s: "composeSessionHolding (ctx(field := None)) = composeSessionHolding ctx"
    using d by (intro ext) (simp add: composeSessionHolding_def)
  show ?thesis
    unfolding ComposeFieldsForFileFormatArguments_def p ot a s t ..
qed

section \<open>Running the composition on the sample contexts\<close>

lemmas demo_simps =
  ComposeFieldsForFileFormatArguments_def composeParamDict_def composeOptionDict_def
  composeAssetName_def composeTimeCaching_def composeRangeSettings_def
  composeRangeSetting_def composeSessionHolding_def ComposeValue_def
  addNumericNodeParmToFormatArgs_def addToArgs_def appendElements.simps readElem_def
  setArg_def
  demoExternals_def demoContext_def demoContextNoMode_def token_defs
  showInt_def

lemma demo_compose_no_mode:
  "ComposeFieldsForFileFormatArguments demoExternals ''asset.hda'' demoContextNoMode Map.empty =
     Inr (\<lparr>cookArgs = [''numeric_speed'' \<mapsto> ''4''], warnings = []\<rparr>,
          VtTimeCaching GEO_HAPI_TIME_CACHING_NONE)"
  by (simp add: demo_simps)

lemma demo_compose_range:
  "ComposeFieldsForFileFormatArguments demoExternals ''asset.hda'' (demoContext ''range'') Map.empty =
     Inr (\<lparr>cookArgs = [''numeric_speed'' \<mapsto> ''4'', ''timecachestart'' \<mapsto> ''1'',
                        ''timecacheend'' \<mapsto> ''24'', ''timecachemethod'' \<mapsto> ''range''],
           warnings = []\<rparr>,
          VtTimeCaching GEO_HAPI_TIME_CACHING_RANGE)"
  by (simp add: demo_simps)

lemma demo_compose_continuous:
  "ComposeFieldsForFileFormatArguments demoExternals ''asset.hda'' (demoContext ''continuous'')
       Map.empty =
     Inr (\<lparr>cookArgs = [''numeric_speed'' \<mapsto> ''4'', ''timecachemethod'' \<mapsto> ''continuous''],
           warnings = []\<rparr>,
          VtTimeCaching GEO_HAPI_TIME_CACHING_CONTINUOUS)"
  by (simp add: demo_simps)

lemma demo_compose_Range:
  "ComposeFieldsForFileFormatArguments demoExternals ''asset.hda'' (demoContext ''Range'')
       Map.empty =
     Inr (\<lparr>cookArgs = [''numeric_speed'' \<mapsto> ''4'', ''timecachemethod'' \<mapsto> ''Range''],
           warnings = []\<rparr>,
          VtTimeCaching GEO_HAPI_TIME_CACHING_NONE)"
  by (simp add: demo_simps)

lemma demo_mode:
  "ComposeValue (demoContext mode) theTimeCacheModeToken Get_string = Some mode"
  "ComposeValue demoContextNoMode theTimeCacheModeToken Get_string = None"
  "ComposeValue (demoContext mode) theTimeCacheStartToken Get_float = Some (Finite 1)"
  "ComposeValue (demoContext mode) theTimeCacheEndToken Get_float = Some (Finite 24)"
  "ComposeValue (demoContext mode) theTimeCacheIntervalToken Get_float = None"
  by (simp_all add: ComposeValue_def demoContext_def demoContextNoMode_def token_defs)

section \<open>The time caching metadata\<close>

text \<open>
  C3. Let \<open>field\<close> be one of the three range fields and \<open>key\<close> the key it is written
  under. When the composed mode string is \<open>range\<close>: the time caching section sets \<open>key\<close>
  to the stringified value if the field is present and holds a \<^verbatim>\<open>float\<close>, and leaves
  the arguments at \<open>key\<close> as they were otherwise (nothing is written, no default); a value
  so written is in the arguments the composition returns; and a field that does not hold a
  \<^verbatim>\<open>float\<close> counts as an absent one. When the mode string is anything else, or there is
  none, the section leaves the arguments at \<open>key\<close> as they were, and the composition
  returns the same result whatever the field holds.
\<close>

theorem range_settings_only_in_range_mode:
  assumes "(field, key) \<in> {(theTimeCacheStartToken, ''timecachestart''),
             (theTimeCacheEndToken, ''timecacheend''),
             (theTimeCacheIntervalToken, ''timecacheinterval'')}"
  shows
    "(ComposeValue ctx theTimeCacheModeToken Get_string = Some ''range'' \<longrightarrow>
        cookArgs (fst (composeTimeCaching ext ctx st)) key =
          (case ComposeValue ctx field Get_float of
             Some out \<Rightarrow> Some (TfStringify ext out)
           | None \<Rightarrow> cookArgs st key) \<and>
        (ComposeValue ctx field Get_float = Some out \<and>
         ComposeFieldsForFileFormatArguments ext assetPath ctx args = Inr (final, tok)
           \<longrightarrow> cookArgs final key = Some (TfStringify ext out)) \<and>
        (ComposeValue ctx field Get_float = None \<longrightarrow>
           ComposeFieldsForFileFormatArguments ext assetPath (ctx(field := None)) args =
           ComposeFieldsForFileFormatArguments ext assetPath ctx args)) \<and>
     (ComposeValue ctx theTimeCacheModeToken Get_string \<noteq> Some ''range'' \<longrightarrow>
        cookArgs (fst (composeTimeCaching ext ctx st)) key = cookArgs st key \<and>
        ComposeFieldsForFileFormatArguments ext assetPath (ctx(field := other)) args =
        ComposeFieldsForFileFormatArguments ext assetPath ctx args)"
proof -
  have f: "field \<in> {theTimeCacheStartToken, theTimeCacheEndToken, theTimeCacheIntervalToken}"
    using assms by (rule range_setting_cases) simp_all
  have k: "key \<noteq> ''keepengineopen''"
    using assms by (rule range_setting_cases) simp_all
  note block = composeTimeCaching_range_key [OF assms, of ext ctx]
  have whole: "cookArgs final key = Some (TfStringify ext out)"
    if r: "ComposeValue ctx theTimeCacheModeToken Get_string = Some ''range''"
      and v: "ComposeValue ctx field Get_float = Some out"
      and c: "ComposeFieldsForFileFormatArguments ext assetPath ctx args = Inr (final, tok)"
  proof -
    from c obtain st1 where
      "final = composeSessionHolding ctx
               (fst (composeTimeCaching ext ctx
                  (composeAssetName ctx (composeOptionDict ctx st1))))"
      unfolding Compose_Inr_iff by blast
    then show ?thesis
      using r v k by (simp add: composeSessionHolding_cookArgs block)
  qed
  show ?thesis
    using whole block [of st] Compose_mistyped_range_field_as_absent [OF f]
      Compose_ignores_range_field [OF f]
    by simp
qed

theorem range_settings_only_in_range_mode_witness:
  "ComposeValue (demoContext ''range'') theTimeCacheModeToken Get_string = Some ''range'' \<and>
   ComposeValue (demoContext ''range'') theTimeCacheStartToken Get_float = Some (Finite 1) \<and>
   ComposeFieldsForFileFormatArguments demoExternals ''asset.hda'' (demoContext ''range'')
       Map.empty =
     Inr (\<lparr>cookArgs = [''numeric_speed'' \<mapsto> ''4'', ''timecachestart'' \<mapsto> ''1'',
                        ''timecacheend'' \<mapsto> ''24'', ''timecachemethod'' \<mapsto> ''range''],
           warnings = []\<rparr>,
          VtTimeCaching GEO_HAPI_TIME_CACHING_RANGE) \<and>
   cookArgs (fst (composeTimeCaching demoExternals (demoContext ''range'') emptyState))
       ''timecachestart'' = Some ''1'' \<and>
   ComposeValue (demoContext ''range'') theTimeCacheIntervalToken Get_float = None \<and>
   cookArgs (fst (composeTimeCaching demoExternals (demoContext ''range'') emptyState))
       ''timecacheinterval'' = None \<and>
   ComposeFieldsForFileFormatArguments demoExternals ''asset.hda''
       ((demoContext ''range'')(theTimeCacheIntervalToken := None)) Map.empty =
     ComposeFieldsForFileFormatArguments demoExternals ''asset.hda'' (demoContext ''range'')
       Map.empty \<and>
   ComposeValue (demoContext ''continuous'') theTimeCacheModeToken Get_string \<noteq> Some ''range'' \<and>
   cookArgs (fst (composeTimeCaching demoExternals (demoContext ''continuous'') emptyState))
       ''timecachestart'' = None \<and>
   ComposeFieldsForFileFormatArguments demoExternals ''asset.hda''
       ((demoContext ''continuous'')(theTimeCacheStartToken := Some (VtFloat (Finite 7)))) Map.empty =
     ComposeFieldsForFileFormatArguments demoExternals ''asset.hda'' (demoContext ''continuous'')
       Map.empty"
proof -
  have s: "(theTimeCacheStartToken, ''timecachestart'') \<in>
             {(theTimeCacheStartToken, ''timecachestart''),
              (theTimeCacheEndToken, ''timecacheend''),
              (theTimeCacheIntervalToken, ''timecacheinterval'')}"
    by simp
  have i: "(theTimeCacheIntervalToken, ''timecacheinterval'') \<in>
             {(theTimeCacheStartToken, ''timecachestart''),
              (theTimeCacheEndToken, ''timecacheend''),
              (theTimeCacheIntervalToken, ''timecacheinterval'')}"
    by simp
  have sh: "TfStringify demoExternals (Finite 1) = ''1''"
    by (simp add: demoExternals_def showInt_def)
  have e: "cookArgs emptyState = Map.empty"
    by (simp add: emptyState_def)
  show ?thesis
    using range_settings_only_in_range_mode
        [OF s, where ctx = "demoContext ''range''" and ext = demoExternals
           and st = emptyState and out = "Finite 1" and assetPath = "''asset.hda''"
           and args = Map.empty]
      range_settings_only_in_range_mode
        [OF i, where ctx = "demoContext ''range''" and ext = demoExternals
           and st = emptyState and assetPath = "''asset.hda''" and args = Map.empty]
      range_settings_only_in_range_mode
        [OF s, where ctx = "demoContext ''continuous''" and ext = demoExternals
           and st = emptyState and assetPath = "''asset.hda''" and args = Map.empty
           and other = "Some (VtFloat (Finite 7))"]
      demo_compose_range
    by (simp add: demo_mode sh e)
qed

text \<open>
  C4, as the code has it. When the time cache mode field is present and holds a string,
  the time caching section sets \<open>timecachemethod\<close> to that string, and the arguments the
  composition returns have it. When the field is absent or does not hold a string, the
  section writes nothing, so no \<open>timecachemethod\<close> is emitted, and the caching mode
  found, which becomes the dependency context data, is the none mode.
\<close>

theorem timecachemethod_emitted_iff_mode_is_string:
  "(ComposeValue ctx theTimeCacheModeToken Get_string = Some mode \<longrightarrow>
      cookArgs (fst (composeTimeCaching ext ctx st)) ''timecachemethod'' = Some mode \<and>
      (ComposeFieldsForFileFormatArguments ext assetPath ctx args = Inr (final, tok) \<longrightarrow>
         cookArgs final ''timecachemethod'' = Some mode)) \<and>
   (ComposeValue ctx theTimeCacheModeToken Get_string = None \<longrightarrow>
      composeTimeCaching ext ctx st = (st, GEO_HAPI_TIME_CACHING_NONE) \<and>
      (ComposeFieldsForFileFormatArguments ext assetPath ctx args = Inr (final, tok) \<longrightarrow>
         tok = VtTimeCaching GEO_HAPI_TIME_CACHING_NONE))"
proof -
  have whole: "cookArgs final ''timecachemethod'' = Some mode"
    if m: "ComposeValue ctx theTimeCacheModeToken Get_string = Some mode"
      and c: "ComposeFieldsForFileFormatArguments ext assetPath ctx args = Inr (final, tok)"
  proof -
    from c obtain st1 where
      "final = composeSessionHolding ctx
               (fst (composeTimeCaching ext ctx
                  (composeAssetName ctx (composeOptionDict ctx st1))))"
      unfolding Compose_Inr_iff by blast
    then show ?thesis
      using m by (simp add: composeSessionHolding_cookArgs composeTimeCaching_mode)
  qed
  have tok: "tok = VtTimeCaching GEO_HAPI_TIME_CACHING_NONE"
    if m: "ComposeValue ctx theTimeCacheModeToken Get_string = None"
      and c: "ComposeFieldsForFileFormatArguments ext assetPath ctx args = Inr (final, tok)"
    using c m unfolding Compose_Inr_iff by (auto simp: composeTimeCaching_no_mode)
  show ?thesis
    using whole tok
    by (simp add: composeTimeCaching_mode composeTimeCaching_no_mode)
qed

theorem timecachemethod_emitted_iff_mode_is_string_witness:
  "ComposeValue (demoContext ''continuous'') theTimeCacheModeToken Get_string
     = Some ''continuous'' \<and>
   cookArgs (fst (composeTimeCaching demoExternals (demoContext ''continuous'') emptyState))
     ''timecachemethod'' = Some ''continuous'' \<and>
   ComposeValue demoContextNoMode theTimeCacheModeToken Get_string = None \<and>
   composeTimeCaching demoExternals demoContextNoMode emptyState
     = (emptyState, GEO_HAPI_TIME_CACHING_NONE)"
  using timecachemethod_emitted_iff_mode_is_string
      [where ctx = "demoContext ''continuous''" and mode = "''continuous''"
         and ext = demoExternals and st = emptyState]
    timecachemethod_emitted_iff_mode_is_string
      [where ctx = demoContextNoMode and ext = demoExternals and st = emptyState]
  by (simp add: demo_mode)

text \<open>
  C4, as the specification words it, fails: a context with no time cache mode field (here
  with the parameter \<open>speed = 4.0\<close> and an empty options dictionary) yields exactly one
  argument, and no \<open>timecachemethod\<close> with the value \<open>none\<close>.
\<close>

theorem timecachemethod_absent_without_mode_field:
  "ComposeValue demoContextNoMode theTimeCacheModeToken Get_string = None \<and>
   ComposeFieldsForFileFormatArguments demoExternals ''asset.hda'' demoContextNoMode Map.empty =
     Inr (\<lparr>cookArgs = [''numeric_speed'' \<mapsto> ''4''], warnings = []\<rparr>,
          VtTimeCaching GEO_HAPI_TIME_CACHING_NONE) \<and>
   [''numeric_speed'' \<mapsto> ''4''] ''timecachemethod'' \<noteq> Some ''none''"
  using demo_compose_no_mode by (simp add: demo_mode)

text \<open>
  C10. When the composed mode is a string other than \<open>none\<close>, \<open>continuous\<close> and
  \<open>range\<close>: the time caching section writes that string under \<open>timecachemethod\<close> and
  nothing else, so none of the three range keys is written; the caching mode found is the
  none mode; the composition returns arguments with that \<open>timecachemethod\<close> and the none
  mode as dependency context data; and its result is the same whatever the three range
  fields hold.
\<close>

theorem unrecognised_mode_verbatim_and_none:
  assumes "ComposeValue ctx theTimeCacheModeToken Get_string = Some mode"
    and "mode \<notin> {''none'', ''continuous'', ''range''}"
  shows
    "composeTimeCaching ext ctx st =
       (setArg ''timecachemethod'' mode st, GEO_HAPI_TIME_CACHING_NONE) \<and>
     cookArgs (fst (composeTimeCaching ext ctx st)) ''timecachestart''
       = cookArgs st ''timecachestart'' \<and>
     cookArgs (fst (composeTimeCaching ext ctx st)) ''timecacheend''
       = cookArgs st ''timecacheend'' \<and>
     cookArgs (fst (composeTimeCaching ext ctx st)) ''timecacheinterval''
       = cookArgs st ''timecacheinterval'' \<and>
     (ComposeFieldsForFileFormatArguments ext assetPath ctx args = Inr (final, tok) \<longrightarrow>
        cookArgs final ''timecachemethod'' = Some mode \<and>
        tok = VtTimeCaching GEO_HAPI_TIME_CACHING_NONE) \<and>
     ComposeFieldsForFileFormatArguments ext assetPath
        (ctx(theTimeCacheStartToken := start, theTimeCacheEndToken := end',
                 theTimeCacheIntervalToken := interval)) args =
     ComposeFieldsForFileFormatArguments ext assetPath ctx args"
proof -
  have m: "mode \<noteq> ''none''" "mode \<noteq> ''continuous''" "mode \<noteq> ''range''"
    using assms(2) by simp_all
  have tc: "composeTimeCaching ext ctx st' =
              (setArg ''timecachemethod'' mode st', GEO_HAPI_TIME_CACHING_NONE)" for st'
    using m by (simp add: composeTimeCaching_mode [OF assms(1)])
  have whole: "cookArgs final ''timecachemethod'' = Some mode \<and>
               tok = VtTimeCaching GEO_HAPI_TIME_CACHING_NONE"
    if c: "ComposeFieldsForFileFormatArguments ext assetPath ctx args = Inr (final, tok)"
    using c unfolding Compose_Inr_iff
    by (auto simp: tc composeSessionHolding_cookArgs)
  have nr: "ComposeValue ctx theTimeCacheModeToken Get_string \<noteq> Some ''range''"
    using assms(1) m by simp
  have nr1: "ComposeValue (ctx(theTimeCacheStartToken := start))
               theTimeCacheModeToken Get_string \<noteq> Some ''range''"
    using nr by (simp add: token_defs)
  have nr2: "ComposeValue (ctx(theTimeCacheStartToken := start, theTimeCacheEndToken := end'))
               theTimeCacheModeToken Get_string \<noteq> Some ''range''"
    using nr by (simp add: token_defs)
  have ign: "ComposeFieldsForFileFormatArguments ext assetPath
        (ctx(theTimeCacheStartToken := start, theTimeCacheEndToken := end',
                 theTimeCacheIntervalToken := interval)) args =
     ComposeFieldsForFileFormatArguments ext assetPath ctx args"
    by (simp add: Compose_ignores_range_field nr nr1 nr2)
  show ?thesis
    using whole ign by (simp add: tc)
qed

theorem unrecognised_mode_verbatim_and_none_witness:
  "ComposeValue (demoContext ''Range'') theTimeCacheModeToken Get_string = Some ''Range'' \<and>
   ''Range'' \<notin> {''none'', ''continuous'', ''range''} \<and>
   ComposeValue (demoContext ''Range'') theTimeCacheStartToken Get_float = Some (Finite 1) \<and>
   ComposeFieldsForFileFormatArguments demoExternals ''asset.hda'' (demoContext ''Range'')
       Map.empty =
     Inr (\<lparr>cookArgs = [''numeric_speed'' \<mapsto> ''4'', ''timecachemethod'' \<mapsto> ''Range''],
           warnings = []\<rparr>,
          VtTimeCaching GEO_HAPI_TIME_CACHING_NONE) \<and>
   composeTimeCaching demoExternals (demoContext ''Range'') emptyState =
     (setArg ''timecachemethod'' ''Range'' emptyState, GEO_HAPI_TIME_CACHING_NONE) \<and>
   ComposeFieldsForFileFormatArguments demoExternals ''asset.hda''
       ((demoContext ''Range'')(theTimeCacheStartToken := None, theTimeCacheEndToken := None,
           theTimeCacheIntervalToken := None)) Map.empty =
     ComposeFieldsForFileFormatArguments demoExternals ''asset.hda'' (demoContext ''Range'')
       Map.empty"
proof -
  have n: "''Range'' \<notin> {''none'', ''continuous'', ''range''}"
    by simp
  have m: "ComposeValue (demoContext ''Range'') theTimeCacheModeToken Get_string = Some ''Range''"
    by (rule demo_mode(1))
  have v: "ComposeValue (demoContext ''Range'') theTimeCacheStartToken Get_float = Some (Finite 1)"
    by (rule demo_mode(3))
  from unrecognised_mode_verbatim_and_none
        [OF m n, where ext = demoExternals and st = emptyState
           and assetPath = "''asset.hda''" and args = Map.empty
           and final = "\<lparr>cookArgs = [''numeric_speed'' \<mapsto> ''4'', ''timecachemethod'' \<mapsto> ''Range''],
                       warnings = []\<rparr>"
           and tok = "VtTimeCaching GEO_HAPI_TIME_CACHING_NONE"
           and start = None and end' = None and interval = None]
  have "composeTimeCaching demoExternals (demoContext ''Range'') emptyState =
          (setArg ''timecachemethod'' ''Range'' emptyState, GEO_HAPI_TIME_CACHING_NONE)"
    and "ComposeFieldsForFileFormatArguments demoExternals ''asset.hda''
          ((demoContext ''Range'')(theTimeCacheStartToken := None, theTimeCacheEndToken := None,
              theTimeCacheIntervalToken := None)) Map.empty =
         ComposeFieldsForFileFormatArguments demoExternals ''asset.hda'' (demoContext ''Range'')
          Map.empty"
    by blast+
  with n m v demo_compose_Range show ?thesis
    by blast
qed

section \<open>Numeric parameters\<close>

lemma size_as_int_small: "n < 2 ^ 31 \<Longrightarrow> size_as_int n = int n"
proof -
  assume n: "n < 2 ^ 31"
  have "int n < 2 ^ 31" using n by (metis of_nat_less_iff of_nat_numeral of_nat_power)
  then have "signed_take_bit 31 (int n) = int n"
    by (intro signed_take_bit_int_eq_self) simp_all
  then show ?thesis by (simp add: size_as_int_def signed_of_nat)
qed

lemma appendElements_join:
  assumes "0 \<le> i" and "nat count \<le> length data"
  shows "appendElements sep fmt data count i valBuf =
           Inr (valBuf @ concat (map (\<lambda>x. sep @ fmt x) (drop (nat i) (take (nat count) data))))"
  using assms
proof (induction sep fmt data count i valBuf rule: appendElements.induct)
  case (1 sep fmt data count i valBuf)
  show ?case
  proof (cases "i < count")
    case False
    then have "nat count \<le> nat i" using "1.prems" by simp
    then show ?thesis using False by (subst appendElements.simps) simp
  next
    case True
    then have lt: "nat i < nat count" using "1.prems" by simp
    have inb: "nat i < length data"
      using lt "1.prems"(2) by linarith
    have r: "readElem data i = Inr (data ! nat i)"
      using inb "1.prems"(1) by (simp add: readElem_def)
    have len: "nat i < length (take (nat count) data)"
      using lt "1.prems" by simp
    have d: "drop (nat i) (take (nat count) data) =
               data ! nat i # drop (nat (i + 1)) (take (nat count) data)"
      using Cons_nth_drop_Suc [OF len] lt "1.prems"(1)
      by (simp add: nat_add_distrib)
    have ih: "appendElements sep fmt data count (i + 1) (valBuf @ sep @ fmt (data ! nat i)) =
                Inr ((valBuf @ sep @ fmt (data ! nat i)) @
                  concat (map (\<lambda>x. sep @ fmt x) (drop (nat (i + 1)) (take (nat count) data))))"
      using "1.IH" [OF True r] "1.prems" by simp
    show ?thesis
      by (subst appendElements.simps) (simp add: True r ih d)
  qed
qed

lemma addToArgs_join:
  assumes "data \<noteq> []" and "count = int (length data)"
  shows "addToArgs ext fmt parmName data count st =
           Inr (setArg (GEO_HDA_PARM_NUMERIC_PREFIX ext @ parmName)
                  (joinWith (GEO_HDA_PARM_SEPARATOR ext) (map fmt data)) st)"
proof -
  obtain d0 rest where data: "data = d0 # rest"
    using assms(1) by (cases data) auto
  have r: "readElem data 0 = Inr d0"
    by (simp add: readElem_def data)
  have a: "appendElements (GEO_HDA_PARM_SEPARATOR ext) fmt data count 1 (fmt d0) =
             Inr (fmt d0 @ concat (map (\<lambda>x. GEO_HDA_PARM_SEPARATOR ext @ fmt x)
                (drop (nat 1) (take (nat count) data))))"
    by (rule appendElements_join) (simp_all add: assms(2))
  have step: "addToArgs ext fmt parmName data count st =
          Inr (setArg (GEO_HDA_PARM_NUMERIC_PREFIX ext @ parmName)
                 (fmt d0 @ concat (map (\<lambda>x. GEO_HDA_PARM_SEPARATOR ext @ fmt x)
                    (drop (nat 1) (take (nat count) data)))) st)"
    by (simp add: addToArgs_def r a)
  have j: "joinWith (GEO_HDA_PARM_SEPARATOR ext) (map fmt data) =
             fmt d0 @ concat (map (\<lambda>x. GEO_HDA_PARM_SEPARATOR ext @ fmt x)
                (drop (nat 1) (take (nat count) data)))"
    by (simp add: data assms(2) comp_def)
  show ?thesis
    by (simp only: step j)
qed

lemma addToArgs_empty: "addToArgs ext fmt parmName [] count st = Inl OutOfBoundsRead"
  by (simp add: addToArgs_def readElem_def)

text \<open>
  Where the code does what the specification says of numeric coercion: when the first
  coercion that succeeds has at least one element (and fewer than \<open>2^31\<close>), the elements
  joined by the separator are written under the prefixed name; when no coercion succeeds,
  a warning is issued and nothing is written.
\<close>

lemma addNumericNodeParm_first_coercion:
  assumes "firstNumericCoercion ext parmData = Some elems"
    and "elems \<noteq> []" and "length elems < 2 ^ 31"
  shows "addNumericNodeParmToFormatArgs ext parmName parmData st =
           Inr (setArg (GEO_HDA_PARM_NUMERIC_PREFIX ext @ parmName)
                  (joinWith (GEO_HDA_PARM_SEPARATOR ext) elems) st)"
proof -
  have arr: "addToArgs ext fmt parmName vals (size_as_int (length vals)) st =
               Inr (setArg (GEO_HDA_PARM_NUMERIC_PREFIX ext @ parmName)
                      (joinWith (GEO_HDA_PARM_SEPARATOR ext) elems) st)"
    if "elems = map fmt vals" for fmt :: "'a \<Rightarrow> string" and vals
  proof -
    have "vals \<noteq> []" "length vals < 2 ^ 31" using that assms(2,3) by auto
    then show ?thesis
      using that by (simp add: addToArgs_join size_as_int_small)
  qed
  show ?thesis
    using assms(1)
    by (auto simp: firstNumericCoercion_def addNumericNodeParmToFormatArgs_def
        addToArgs_join arr split: option.splits)
qed

lemma addNumericNodeParm_no_coercion:
  assumes "firstNumericCoercion ext parmData = None"
  shows "addNumericNodeParmToFormatArgs ext parmName parmData st =
           Inr (TF_WARN (unexpectedTypeWarning (GetTypeName ext parmData)) st)"
  using assms
  by (auto simp: firstNumericCoercion_def addNumericNodeParmToFormatArgs_def
      split: option.splits)

text \<open>
  Where it does not: when the first coercion that succeeds is an array with no elements,
  \<^verbatim>\<open>data[0]\<close> is read all the same.
\<close>

lemma addNumericNodeParm_empty_array:
  assumes "firstNumericCoercion ext parmData = Some []"
  shows "addNumericNodeParmToFormatArgs ext parmName parmData st = Inl OutOfBoundsRead"
  using assms
  by (auto simp: firstNumericCoercion_def addNumericNodeParmToFormatArgs_def
      addToArgs_empty split: option.splits)

text \<open>
  C5. The specification's sentence on numeric parameters fails on the code at an empty
  array: a parameter dictionary with the entry \<open>p\<close> holding an empty array of doubles
  casts to no scalar and no vector, casts to an array of doubles with no elements, and
  then \<^verbatim>\<open>addToArgs\<close> reads \<^verbatim>\<open>data[0]\<close> of that empty array: the composition does not
  emit the joined (empty) value, it reads out of bounds.
\<close>

theorem empty_array_parameter_read_out_of_bounds:
  "firstNumericCoercion demoExternals (VtDoubleArray []) = Some [] \<and>
   addNumericNodeParmToFormatArgs demoExternals ''p'' (VtDoubleArray []) emptyState
     = Inl OutOfBoundsRead \<and>
   ComposeFieldsForFileFormatArguments demoExternals ''asset.hda''
       [theParamDictToken \<mapsto> VtDictionary [(''p'', VtDoubleArray [])]] Map.empty
     = Inl OutOfBoundsRead"
proof -
  have f: "firstNumericCoercion demoExternals (VtDoubleArray []) = Some []"
    by (simp add: firstNumericCoercion_def demoExternals_def)
  have a: "addNumericNodeParmToFormatArgs demoExternals ''p'' (VtDoubleArray []) st
             = Inl OutOfBoundsRead" for st
    using f by (rule addNumericNodeParm_empty_array)
  have c: "ComposeFieldsForFileFormatArguments demoExternals ''asset.hda''
       [theParamDictToken \<mapsto> VtDictionary [(''p'', VtDoubleArray [])]] Map.empty
     = Inl OutOfBoundsRead"
    by (simp add: ComposeFieldsForFileFormatArguments_def composeParamDict_def
        ComposeValue_def a)
  from f a c show ?thesis by simp
qed

section \<open>The options dictionary\<close>

lemma optionDictLoop_warnings: "warnings (optionDictLoop optDict st) = warnings st"
  by (induction optDict arbitrary: st) (auto split: option.split)

lemma optionDictLoop_other_key:
  "k \<notin> fst ` set optDict \<Longrightarrow> cookArgs (optionDictLoop optDict st) k = cookArgs st k"
  by (induction optDict arbitrary: st) (auto split: option.split)

lemma optionDictLoop_entry:
  assumes "distinct (map fst optDict)" and "(optName, data) \<in> set optDict"
  shows "cookArgs (optionDictLoop optDict st) optName =
           (case Get_string data of Some out \<Rightarrow> Some out | None \<Rightarrow> cookArgs st optName)"
  using assms
proof (induction optDict arbitrary: st)
  case Nil
  then show ?case by simp
next
  case (Cons entry rest)
  obtain n v where entry: "entry = (n, v)" by (cases entry)
  show ?case
  proof (cases "(optName, data) = entry")
    case True
    then have nv: "n = optName" "v = data" using entry by simp_all
    have "optName \<notin> fst ` set rest" using Cons.prems(1) entry nv by simp
    then have "cookArgs (optionDictLoop rest st') optName = cookArgs st' optName" for st'
      by (rule optionDictLoop_other_key)
    then show ?thesis by (simp add: entry nv split: option.split)
  next
    case False
    then have "(optName, data) \<in> set rest" using Cons.prems(2) by simp
    moreover have "distinct (map fst rest)" using Cons.prems(1) by simp
    moreover have "n \<noteq> optName"
      using Cons.prems(1) entry \<open>(optName, data) \<in> set rest\<close> by force
    ultimately show ?thesis
      using Cons.IH by (simp add: entry split: option.split)
  qed
qed

lemma composeAssetName_other_key:
  "k \<noteq> ''assetname'' \<Longrightarrow> cookArgs (composeAssetName ctx st) k = cookArgs st k"
  by (simp add: composeAssetName_def split: option.split)

lemma composeRangeSettings_other_key:
  assumes "k \<noteq> ''timecachestart''" and "k \<noteq> ''timecacheend''" and "k \<noteq> ''timecacheinterval''"
  shows "cookArgs (composeRangeSettings ext ctx st) k = cookArgs st k"
  using assms
  by (simp add: composeRangeSettings_def composeRangeSetting_cookArgs split: option.split)

lemma composeTimeCaching_other_key:
  assumes "k \<noteq> ''timecachestart''" and "k \<noteq> ''timecacheend''" and "k \<noteq> ''timecacheinterval''"
    and "k \<noteq> ''timecachemethod''"
  shows "cookArgs (fst (composeTimeCaching ext ctx st)) k = cookArgs st k"
proof (cases "ComposeValue ctx theTimeCacheModeToken Get_string")
  case None
  then show ?thesis by (simp add: composeTimeCaching_no_mode)
next
  case (Some mode)
  then show ?thesis
    using assms by (simp add: composeTimeCaching_mode composeRangeSettings_other_key)
qed

text \<open>
  C6. For an entry of the options dictionary (a dictionary has one entry per name): if
  its value is a string, the options section sets the argument of that name to the string
  as it is, and unless the name is one of the six control keys that later sections write,
  the arguments the composition returns have it; if its value is not a string, the section
  leaves the argument of that name as it was. The section issues no warning in either case.
\<close>

theorem option_entry_copied_iff_string:
  assumes "ComposeValue ctx theOptionDictToken Get_VtDictionary = Some optDict"
    and "distinct (map fst optDict)"
    and "(optName, data) \<in> set optDict"
  shows
    "(Get_string data = Some out \<longrightarrow>
        cookArgs (composeOptionDict ctx st) optName = Some out \<and>
        (optName \<notin> {''assetname'', ''timecachestart'', ''timecacheend'', ''timecacheinterval'',
                     ''timecachemethod'', ''keepengineopen''} \<and>
         ComposeFieldsForFileFormatArguments ext assetPath ctx args = Inr (final, tok)
           \<longrightarrow> cookArgs final optName = Some out)) \<and>
     (Get_string data = None \<longrightarrow>
        cookArgs (composeOptionDict ctx st) optName = cookArgs st optName) \<and>
     warnings (composeOptionDict ctx st) = warnings st"
proof -
  have block: "cookArgs (composeOptionDict ctx st') optName =
                 (case Get_string data of Some out \<Rightarrow> Some out | None \<Rightarrow> cookArgs st' optName)"
    for st'
    using optionDictLoop_entry [OF assms(2,3)] by (simp add: composeOptionDict_def assms(1))
  have whole: "cookArgs final optName = Some out"
    if s: "Get_string data = Some out"
      and k: "optName \<notin> {''assetname'', ''timecachestart'', ''timecacheend'',
                ''timecacheinterval'', ''timecachemethod'', ''keepengineopen''}"
      and c: "ComposeFieldsForFileFormatArguments ext assetPath ctx args = Inr (final, tok)"
  proof -
    from c obtain st1 where
      "final = composeSessionHolding ctx
                 (fst (composeTimeCaching ext ctx
                    (composeAssetName ctx (composeOptionDict ctx st1))))"
      unfolding Compose_Inr_iff by blast
    then show ?thesis
      using k s
      by (simp add: composeSessionHolding_cookArgs composeTimeCaching_other_key
          composeAssetName_other_key block)
  qed
  show ?thesis
    using whole block [of st]
    by (simp add: composeOptionDict_def assms(1) optionDictLoop_warnings)
qed

lemma demo_compose_options:
  "ComposeFieldsForFileFormatArguments demoExternals ''asset.hda'' demoContextOptions Map.empty =
     Inr (\<lparr>cookArgs = [''verbose'' \<mapsto> ''yes''], warnings = []\<rparr>,
          VtTimeCaching GEO_HAPI_TIME_CACHING_NONE)"
  by (simp add: demo_simps demoContextOptions_def demoOptions_def)

theorem option_entry_copied_iff_string_witness:
  "ComposeValue demoContextOptions theOptionDictToken Get_VtDictionary = Some demoOptions \<and>
   distinct (map fst demoOptions) \<and>
   (''verbose'', VtString ''yes'') \<in> set demoOptions \<and>
   (''level'', VtInt 3) \<in> set demoOptions \<and>
   cookArgs (composeOptionDict demoContextOptions emptyState) ''verbose'' = Some ''yes'' \<and>
   cookArgs (composeOptionDict demoContextOptions emptyState) ''level'' = None \<and>
   warnings (composeOptionDict demoContextOptions emptyState) = [] \<and>
   ComposeFieldsForFileFormatArguments demoExternals ''asset.hda'' demoContextOptions Map.empty =
     Inr (\<lparr>cookArgs = [''verbose'' \<mapsto> ''yes''], warnings = []\<rparr>,
          VtTimeCaching GEO_HAPI_TIME_CACHING_NONE)"
proof -
  have d: "ComposeValue demoContextOptions theOptionDictToken Get_VtDictionary = Some demoOptions"
    by (simp add: ComposeValue_def demoContextOptions_def)
  have u: "distinct (map fst demoOptions)"
    by (simp add: demoOptions_def)
  have v: "(''verbose'', VtString ''yes'') \<in> set demoOptions"
    by (simp add: demoOptions_def)
  have l: "(''level'', VtInt 3) \<in> set demoOptions"
    by (simp add: demoOptions_def)
  have e: "cookArgs emptyState = Map.empty" "warnings emptyState = []"
    by (simp_all add: emptyState_def)
  from option_entry_copied_iff_string [OF d u v, where out = "''yes''" and st = emptyState]
  have "cookArgs (composeOptionDict demoContextOptions emptyState) ''verbose'' = Some ''yes''"
    and "warnings (composeOptionDict demoContextOptions emptyState) = []"
    by (simp_all add: e)
  moreover
  from option_entry_copied_iff_string [OF d u l, where st = emptyState]
  have "cookArgs (composeOptionDict demoContextOptions emptyState) ''level'' = None"
    by (simp add: e)
  ultimately show ?thesis
    using d u v l demo_compose_options by simp
qed

section \<open>The composition depends on the context alone\<close>

lemma applyWrites_applyWrites:
  "applyWrites W2 ws2 (applyWrites W1 ws1 st) = applyWrites (W1 ++ W2) (ws1 @ ws2) st"
  by (simp add: applyWrites_def)

lemma applyWrites_nothing: "applyWrites Map.empty [] st = st"
  by (simp add: applyWrites_def)

lemma setArg_applyWrites: "setArg key val st = applyWrites [key \<mapsto> val] [] st"
  by (simp add: setArg_def applyWrites_def)

lemma TF_WARN_applyWrites: "TF_WARN msg st = applyWrites Map.empty [msg] st"
  by (simp add: TF_WARN_def applyWrites_def)

lemma framed_error: "(\<And>st. f st = Inl e) \<Longrightarrow> framed f"
  unfolding framed_def by blast

lemma framed_writes: "(\<And>st. f st = Inr (applyWrites W ws st)) \<Longrightarrow> framed f"
  unfolding framed_def by blast

lemma framed_skip: "framed Inr"
  by (rule framed_writes [of _ Map.empty "[]"]) (simp add: applyWrites_nothing)

lemma framed_setArg: "framed (\<lambda>st. Inr (setArg key val st))"
  by (rule framed_writes) (rule arg_cong [OF setArg_applyWrites])

lemma framed_TF_WARN: "framed (\<lambda>st. Inr (TF_WARN msg st))"
  by (rule framed_writes) (rule arg_cong [OF TF_WARN_applyWrites])

lemma framed_bind:
  assumes "framed f" and "framed g"
  shows "framed (\<lambda>st. case f st of Inl e \<Rightarrow> Inl e | Inr st' \<Rightarrow> g st')"
proof -
  from assms(1) consider e where "\<And>st. f st = Inl e"
    | W ws where "\<And>st. f st = Inr (applyWrites W ws st)"
    unfolding framed_def by blast
  then show ?thesis
  proof cases
    case 1
    then show ?thesis by (intro framed_error [of _ e]) simp
  next
    case f: 2
    from assms(2) consider e where "\<And>st. g st = Inl e"
      | W' ws' where "\<And>st. g st = Inr (applyWrites W' ws' st)"
      unfolding framed_def by blast
    then show ?thesis
    proof cases
      case 1
      then show ?thesis using f by (intro framed_error [of _ e]) simp
    next
      case 2
      then show ?thesis
        using f
        by (intro framed_writes [of _ "W ++ W'" "ws @ ws'"])
           (simp add: applyWrites_applyWrites)
    qed
  qed
qed

lemma framed_then:
  assumes "framed (\<lambda>st. Inr (f st))" and "framed (\<lambda>st. Inr (g st))"
  shows "framed (\<lambda>st. Inr (g (f st)))"
  using framed_bind [OF assms] by simp

lemma framed_addToArgs: "framed (addToArgs ext fmt parmName data count)"
proof (cases "readElem data 0")
  case (Inl e)
  then show ?thesis by (intro framed_error [of _ e]) (simp add: addToArgs_def)
next
  case r: (Inr d0)
  show ?thesis
  proof (cases "appendElements (GEO_HDA_PARM_SEPARATOR ext) fmt data count 1 (fmt d0)")
    case (Inl e)
    then show ?thesis using r by (intro framed_error [of _ e]) (simp add: addToArgs_def)
  next
    case (Inr valBuf)
    then show ?thesis
      using r
      by (intro framed_writes
            [of _ "[GEO_HDA_PARM_NUMERIC_PREFIX ext @ parmName \<mapsto> valBuf]" "[]"])
         (simp add: addToArgs_def setArg_applyWrites)
  qed
qed

lemma framed_case_option:
  assumes "x = None \<Longrightarrow> framed f" and "\<And>v. x = Some v \<Longrightarrow> framed (g v)"
  shows "framed (\<lambda>st. case x of None \<Rightarrow> f st | Some v \<Rightarrow> g v st)"
  using assms by (cases x) simp_all

lemma framed_addNumericNodeParm:
  "framed (addNumericNodeParmToFormatArgs ext parmName parmData)"
proof -
  have "framed (\<lambda>st. addNumericNodeParmToFormatArgs ext parmName parmData st)"
    unfolding addNumericNodeParmToFormatArgs_def
    by (intro framed_case_option)
       (simp_all add: split_beta framed_addToArgs framed_TF_WARN)
  then show ?thesis by simp
qed

lemma framed_paramDictLoop: "framed (paramDictLoop ext paramDict)"
proof (induction paramDict)
  case Nil
  have "paramDictLoop ext [] = Inr" by (intro ext) simp
  then show ?case by (simp add: framed_skip)
next
  case (Cons entry rest)
  obtain parmName data where entry: "entry = (parmName, data)" by (cases entry)
  show ?case
  proof (cases "Get_string data")
    case (Some strData)
    have "paramDictLoop ext (entry # rest) =
            (\<lambda>st. case Inr (setArg (GEO_HDA_PARM_STRING_PREFIX ext @ c_str parmName) strData st)
                   of Inl e \<Rightarrow> Inl e | Inr st' \<Rightarrow> paramDictLoop ext rest st')"
      by (intro ext) (simp add: entry Some)
    then show ?thesis
      using framed_bind [OF framed_setArg Cons.IH] by simp
  next
    case None
    have "paramDictLoop ext (entry # rest) =
            (\<lambda>st. case addNumericNodeParmToFormatArgs ext parmName data st
                   of Inl e \<Rightarrow> Inl e | Inr st' \<Rightarrow> paramDictLoop ext rest st')"
      by (intro ext) (simp add: entry None)
    then show ?thesis
      using framed_bind [OF framed_addNumericNodeParm Cons.IH] by simp
  qed
qed

lemma framed_composeParamDict: "framed (composeParamDict ext ctx)"
proof (cases "ComposeValue ctx theParamDictToken Get_VtDictionary")
  case None
  then have "composeParamDict ext ctx = Inr"
    by (intro ext) (simp add: composeParamDict_def)
  then show ?thesis by (simp add: framed_skip)
next
  case (Some paramDict)
  then have "composeParamDict ext ctx = paramDictLoop ext paramDict"
    by (intro ext) (simp add: composeParamDict_def)
  then show ?thesis by (simp add: framed_paramDictLoop)
qed

lemma framed_optionDictLoop: "framed (\<lambda>st. Inr (optionDictLoop optDict st))"
proof (induction optDict)
  case Nil
  then show ?case using framed_skip by (simp add: Inr_def [symmetric] cong: sum.case_cong)
next
  case (Cons entry rest)
  obtain optName data where entry: "entry = (optName, data)" by (cases entry)
  show ?case
  proof (cases "Get_string data")
    case None
    then show ?thesis using Cons.IH by (simp add: entry)
  next
    case (Some out)
    then show ?thesis
      using framed_then
          [where f = "setArg optName out" and g = "optionDictLoop rest",
           OF framed_setArg Cons.IH]
      by (simp add: entry)
  qed
qed

lemma framed_unchanged: "framed (\<lambda>st. Inr st)"
  by (rule framed_writes [of _ Map.empty "[]"]) (simp add: applyWrites_nothing)

lemma framed_composeOptionDict: "framed (\<lambda>st. Inr (composeOptionDict ctx st))"
  by (cases "ComposeValue ctx theOptionDictToken Get_VtDictionary")
     (simp_all add: composeOptionDict_def framed_unchanged framed_optionDictLoop)

lemma framed_composeAssetName: "framed (\<lambda>st. Inr (composeAssetName ctx st))"
  by (cases "ComposeValue ctx theAssetNameToken Get_string")
     (simp_all add: composeAssetName_def framed_unchanged framed_setArg)

lemma framed_composeSessionHolding: "framed (\<lambda>st. Inr (composeSessionHolding ctx st))"
  by (cases "ComposeValue ctx theHAPISessionToken Get_bool")
     (simp_all add: composeSessionHolding_def framed_unchanged framed_setArg)

lemma framed_composeRangeSetting:
  "framed (\<lambda>st. Inr (composeRangeSetting ext ctx field key st))"
  by (cases "ComposeValue ctx field Get_float")
     (simp_all add: composeRangeSetting_def framed_unchanged framed_setArg)

lemma framed_composeRangeSettings: "framed (\<lambda>st. Inr (composeRangeSettings ext ctx st))"
proof -
  note one = framed_composeRangeSetting [of ext ctx]
  have two: "framed (\<lambda>st. Inr
      (composeRangeSetting ext ctx theTimeCacheEndToken ''timecacheend''
        (composeRangeSetting ext ctx theTimeCacheStartToken ''timecachestart'' st)))"
    by (rule framed_then
          [where f = "composeRangeSetting ext ctx theTimeCacheStartToken ''timecachestart''"
             and g = "composeRangeSetting ext ctx theTimeCacheEndToken ''timecacheend''",
           OF one one])
  have "framed (\<lambda>st. Inr
      (composeRangeSetting ext ctx theTimeCacheIntervalToken ''timecacheinterval''
        (composeRangeSetting ext ctx theTimeCacheEndToken ''timecacheend''
          (composeRangeSetting ext ctx theTimeCacheStartToken ''timecachestart'' st))))"
    by (rule framed_then
          [where g = "composeRangeSetting ext ctx theTimeCacheIntervalToken ''timecacheinterval''",
           OF two one])
  then show ?thesis by (simp add: composeRangeSettings_def)
qed

lemma framed_composeTimeCaching: "framed (\<lambda>st. Inr (fst (composeTimeCaching ext ctx st)))"
proof (cases "ComposeValue ctx theTimeCacheModeToken Get_string")
  case None
  then show ?thesis by (simp add: composeTimeCaching_no_mode framed_unchanged)
next
  case (Some mode)
  show ?thesis
  proof (cases "mode = ''range''")
    case True
    then show ?thesis
      using framed_then
          [where f = "composeRangeSettings ext ctx" and g = "setArg ''timecachemethod'' mode",
           OF framed_composeRangeSettings framed_setArg]
      by (simp add: composeTimeCaching_mode [OF Some])
  next
    case False
    then show ?thesis
      by (simp add: composeTimeCaching_mode [OF Some] framed_setArg)
  qed
qed

text \<open>The sections in sequence, without the dependency context data.\<close>

lemma framed_sections:
  "framed (\<lambda>st. case composeParamDict ext ctx st of
                   Inl e \<Rightarrow> Inl e
                 | Inr st1 \<Rightarrow>
                     Inr (composeSessionHolding ctx
                            (fst (composeTimeCaching ext ctx
                               (composeAssetName ctx (composeOptionDict ctx st1))))))"
proof -
  have two: "framed (\<lambda>st. Inr (composeAssetName ctx (composeOptionDict ctx st)))"
    by (rule framed_then
          [where f = "composeOptionDict ctx" and g = "composeAssetName ctx",
           OF framed_composeOptionDict framed_composeAssetName])
  have three: "framed (\<lambda>st. Inr (fst (composeTimeCaching ext ctx
                   (composeAssetName ctx (composeOptionDict ctx st)))))"
    by (rule framed_then
          [where g = "\<lambda>st. fst (composeTimeCaching ext ctx st)",
           OF two framed_composeTimeCaching])
  have four: "framed (\<lambda>st. Inr (composeSessionHolding ctx
                   (fst (composeTimeCaching ext ctx
                      (composeAssetName ctx (composeOptionDict ctx st))))))"
    by (rule framed_then
          [where g = "composeSessionHolding ctx", OF three framed_composeSessionHolding])
  show ?thesis
    by (rule framed_bind [OF framed_composeParamDict four])
qed

lemma Compose_as_sections:
  "ComposeFieldsForFileFormatArguments ext assetPath ctx args =
     (case (case composeParamDict ext ctx \<lparr>cookArgs = args, warnings = []\<rparr> of
              Inl e \<Rightarrow> Inl e
            | Inr st1 \<Rightarrow>
                Inr (composeSessionHolding ctx
                       (fst (composeTimeCaching ext ctx
                          (composeAssetName ctx (composeOptionDict ctx st1)))))) of
        Inl e \<Rightarrow> Inl e
      | Inr final \<Rightarrow>
          Inr (final, VtTimeCaching (snd (composeTimeCaching ext ctx emptyState))))"
proof (cases "composeParamDict ext ctx \<lparr>cookArgs = args, warnings = []\<rparr>")
  case (Inl e)
  then show ?thesis by (simp add: ComposeFieldsForFileFormatArguments_def)
next
  case (Inr st1)
  have "snd (composeTimeCaching ext ctx (composeAssetName ctx (composeOptionDict ctx st1)))
          = snd (composeTimeCaching ext ctx emptyState)"
    by (rule composeTimeCaching_mode_independent_of_state)
  then show ?thesis
    by (simp add: ComposeFieldsForFileFormatArguments_def Inr Let_def split_beta)
qed

text \<open>
  The composition either fails whatever the incoming arguments are, or adds the same
  arguments over the incoming ones, with the same warnings and the same dependency context
  data.
\<close>

lemma Compose_frame:
  "(\<exists>e. \<forall>args assetPath. ComposeFieldsForFileFormatArguments ext assetPath ctx args = Inl e) \<or>
   (\<exists>W ws tok. \<forall>args assetPath.
      ComposeFieldsForFileFormatArguments ext assetPath ctx args =
        Inr (\<lparr>cookArgs = args ++ W, warnings = ws\<rparr>, tok))"
proof -
  from framed_sections [where ext = ext and ctx = ctx]
  consider e where "\<And>st. (case composeParamDict ext ctx st of
                   Inl e \<Rightarrow> Inl e
                 | Inr st1 \<Rightarrow>
                     Inr (composeSessionHolding ctx
                            (fst (composeTimeCaching ext ctx
                               (composeAssetName ctx (composeOptionDict ctx st1)))))) = Inl e"
    | W ws where "\<And>st. (case composeParamDict ext ctx st of
                   Inl e \<Rightarrow> Inl e
                 | Inr st1 \<Rightarrow>
                     Inr (composeSessionHolding ctx
                            (fst (composeTimeCaching ext ctx
                               (composeAssetName ctx (composeOptionDict ctx st1)))))) =
                 Inr (applyWrites W ws st)"
    unfolding framed_def by blast
  then show ?thesis
  proof cases
    case 1
    then have "ComposeFieldsForFileFormatArguments ext assetPath ctx args = Inl e"
      for args assetPath
      unfolding Compose_as_sections by simp
    then show ?thesis by blast
  next
    case 2
    then have "ComposeFieldsForFileFormatArguments ext assetPath ctx args =
        Inr (\<lparr>cookArgs = args ++ W, warnings = ws\<rparr>,
             VtTimeCaching (snd (composeTimeCaching ext ctx emptyState)))"
      for args assetPath
      unfolding Compose_as_sections by (simp add: applyWrites_def)
    then show ?thesis by blast
  qed
qed

text \<open>
  C9. Two compositions over the same context give the same result: the same arguments,
  the same dependency context data (and the same warnings, or the same failure). This holds
  whatever the asset path is, and it holds as well when the second composition is handed
  the arguments the first one returned instead of the arguments the first one was handed:
  it returns them unchanged.
\<close>

theorem composition_deterministic:
  "ComposeFieldsForFileFormatArguments ext assetPath' ctx args =
     ComposeFieldsForFileFormatArguments ext assetPath ctx args \<and>
   (ComposeFieldsForFileFormatArguments ext assetPath ctx args = Inr (final, tok) \<longrightarrow>
      ComposeFieldsForFileFormatArguments ext assetPath' ctx (cookArgs final) = Inr (final, tok))"
proof -
  have same: "ComposeFieldsForFileFormatArguments ext assetPath' ctx args =
                ComposeFieldsForFileFormatArguments ext assetPath ctx args"
    by (simp add: ComposeFieldsForFileFormatArguments_def)
  have again: "ComposeFieldsForFileFormatArguments ext assetPath' ctx (cookArgs final)
                 = Inr (final, tok)"
    if c: "ComposeFieldsForFileFormatArguments ext assetPath ctx args = Inr (final, tok)"
  proof -
    from Compose_frame [where ext = ext and ctx = ctx] c obtain W ws tok' where
      w: "\<And>args assetPath. ComposeFieldsForFileFormatArguments ext assetPath ctx args =
            Inr (\<lparr>cookArgs = args ++ W, warnings = ws\<rparr>, tok')"
      by force
    from c w [of assetPath args]
    have f: "final = \<lparr>cookArgs = args ++ W, warnings = ws\<rparr>" and t: "tok = tok'"
      by simp_all
    have "(args ++ W) ++ W = args ++ W"
      by (intro ext) (simp add: map_add_def split: option.split)
    then show ?thesis
      using w [of assetPath' "cookArgs final"] by (simp add: f t)
  qed
  from same again show ?thesis by blast
qed

theorem composition_deterministic_witness:
  "ComposeFieldsForFileFormatArguments demoExternals ''asset.hda'' (demoContext ''range'')
       Map.empty =
     Inr (\<lparr>cookArgs = [''numeric_speed'' \<mapsto> ''4'', ''timecachestart'' \<mapsto> ''1'',
                        ''timecacheend'' \<mapsto> ''24'', ''timecachemethod'' \<mapsto> ''range''],
           warnings = []\<rparr>,
          VtTimeCaching GEO_HAPI_TIME_CACHING_RANGE) \<and>
   ComposeFieldsForFileFormatArguments demoExternals ''other.otl'' (demoContext ''range'')
       [''numeric_speed'' \<mapsto> ''4'', ''timecachestart'' \<mapsto> ''1'',
        ''timecacheend'' \<mapsto> ''24'', ''timecachemethod'' \<mapsto> ''range''] =
     Inr (\<lparr>cookArgs = [''numeric_speed'' \<mapsto> ''4'', ''timecachestart'' \<mapsto> ''1'',
                        ''timecacheend'' \<mapsto> ''24'', ''timecachemethod'' \<mapsto> ''range''],
           warnings = []\<rparr>,
          VtTimeCaching GEO_HAPI_TIME_CACHING_RANGE)"
  using composition_deterministic
      [where ext = demoExternals and assetPath = "''asset.hda''" and assetPath' = "''other.otl''"
         and ctx = "demoContext ''range''" and args = Map.empty
         and final = "\<lparr>cookArgs = [''numeric_speed'' \<mapsto> ''4'', ''timecachestart'' \<mapsto> ''1'',
                        ''timecacheend'' \<mapsto> ''24'', ''timecachemethod'' \<mapsto> ''range''],
                      warnings = []\<rparr>"
         and tok = "VtTimeCaching GEO_HAPI_TIME_CACHING_RANGE"]
    demo_compose_range
  by simp

end
